theory Spec2Isabelle
  imports Main "HOL-Library.Code_Target_Nat"
begin

section \<open>Data model (types.ts)\<close>

text \<open>
  The union types of \<^verbatim>\<open>types.ts\<close> are datatypes and its interfaces are records.
  Isabelle records share one name space for their fields, so every field carries a
  short prefix naming its interface: \<open>tc_\<close> for TranscriptChunk, \<open>rec_\<close> for
  Recording, \<open>voc_\<close> for VocabularyItem. Numbers that the program only uses as
  non-negative integers (sizes, indices, timestamps, offsets) are \<open>nat\<close>.
  A JavaScript string is a \<open>string\<close>: the model covers the strings whose code units
  are below 256.
\<close>

datatype RecordingStatus = New | Transcribing | Completed | Failed

datatype ChunkStatus = ChunkProcessing | ChunkCompleted | ChunkFailed

record TranscriptChunk =
  tc_index :: nat
  tc_content :: string
  tc_status :: ChunkStatus

text \<open>A Blob is a sequence of bytes with a media type.\<close>

record Blob =
  blob_bytes :: "nat list"
  blob_type :: string

definition blob_size :: "Blob \<Rightarrow> nat" where
  "blob_size b = length (blob_bytes b)"

text \<open>
  \<^verbatim>\<open>blob.slice(start, end, contentType)\<close>: both offsets are clamped to the size of the
  blob and an empty span gives an empty blob.
\<close>

definition blob_slice :: "nat \<Rightarrow> nat \<Rightarrow> string \<Rightarrow> Blob \<Rightarrow> Blob" where
  "blob_slice start end' ty b =
     \<lparr>blob_bytes = take (end' - start) (drop start (blob_bytes b)), blob_type = ty\<rparr>"

text \<open>\<^verbatim>\<open>new Blob([header, chunkBlob], { type })\<close>: the parts one after the other.\<close>

definition blob_concat :: "Blob list \<Rightarrow> string \<Rightarrow> Blob" where
  "blob_concat parts ty = \<lparr>blob_bytes = concat (map blob_bytes parts), blob_type = ty\<rparr>"

record Recording =
  rec_id :: nat
  rec_name :: string
  rec_size :: nat
  rec_mimeType :: string
  rec_status :: RecordingStatus
  rec_progress :: nat
  rec_transcriptChunks :: "TranscriptChunk list"
  rec_formattedNotes :: "string option"
  rec_blob :: Blob

record VocabularyItem =
  voc_id :: nat
  voc_word :: string
  voc_description :: string

section \<open>JavaScript values and string operations used by the program\<close>

text \<open>
  A value that is thrown or that rejects a promise: an \<^verbatim>\<open>Error\<close> object with its message,
  or a value that is not an \<^verbatim>\<open>Error\<close> (the services of \<^verbatim>\<open>dbService.ts\<close> reject with
  plain strings), kept with what \<^verbatim>\<open>String(e)\<close> gives for it.
\<close>

datatype thrown = Error string | NonError string

text \<open>\<^verbatim>\<open>e instanceof Error ? e.message : String(e)\<close>\<close>

fun message_or_string :: "thrown \<Rightarrow> string" where
  "message_or_string (Error m) = m"
| "message_or_string (NonError v) = v"

text \<open>
  \<^verbatim>\<open>err.message\<close> read inside a template literal: a value that is not an
  \<^verbatim>\<open>Error\<close> has no such property and prints as \<^verbatim>\<open>undefined\<close>.
\<close>

fun message_in_template :: "thrown \<Rightarrow> string" where
  "message_in_template (Error m) = m"
| "message_in_template (NonError v) = ''undefined''"

text \<open>
  White space as \<^verbatim>\<open>String.prototype.trim\<close> sees it, among the code units below 256: tab,
  line feed, vertical tab, form feed, carriage return, space and no-break space.
\<close>

definition is_ws :: "char \<Rightarrow> bool" where
  "is_ws c = (c \<in> set [CHR 0x09, CHR 0x0A, CHR 0x0B, CHR 0x0C, CHR 0x0D, CHR 0x20, CHR 0xA0])"

definition trim :: "string \<Rightarrow> string" where
  "trim s = rev (dropWhile is_ws (rev (dropWhile is_ws s)))"

text \<open>
  \<^verbatim>\<open>String.prototype.toLowerCase\<close> on code units below 256: the letters A to Z and the
  capital letters of Latin-1 (0xC0 to 0xDE without the multiplication sign 0xD7) move up
  by 32, every other character stays.
\<close>

definition lower_char :: "char \<Rightarrow> char" where
  "lower_char c =
     (let n = of_char c :: nat in
      if (0x41 \<le> n \<and> n \<le> 0x5A) \<or> (0xC0 \<le> n \<and> n \<le> 0xDE \<and> n \<noteq> 0xD7)
      then char_of (n + 32) else c)"

definition toLowerCase :: "string \<Rightarrow> string" where
  "toLowerCase s = map lower_char s"

text \<open>\<^verbatim>\<open>s.split(';')[0]\<close>: the text before the first semicolon.\<close>

definition before_semicolon :: "string \<Rightarrow> string" where
  "before_semicolon s = takeWhile (\<lambda>c. c \<noteq> CHR '';'') s"

fun starts_with :: "string \<Rightarrow> string \<Rightarrow> bool" where
  "starts_with s [] = True"
| "starts_with [] (p # ps) = False"
| "starts_with (c # cs) (p # ps) = (c = p \<and> starts_with cs ps)"

text \<open>\<^verbatim>\<open>s.includes(sub)\<close>\<close>

fun includes_str :: "string \<Rightarrow> string \<Rightarrow> bool" where
  "includes_str [] sub = (sub = [])"
| "includes_str (c # cs) sub = (starts_with (c # cs) sub \<or> includes_str cs sub)"

text \<open>\<^verbatim>\<open>parts.join(sep)\<close>\<close>

fun join :: "string \<Rightarrow> string list \<Rightarrow> string" where
  "join sep [] = []"
| "join sep [x] = x"
| "join sep (x # y # ys) = x @ sep @ join sep (y # ys)"

section \<open>The piece plan of processRecording (component App)\<close>

definition MAX_CHUNK_SIZE_BYTES :: nat where
  "MAX_CHUNK_SIZE_BYTES = 10 * 1024 * 1024"

definition HEADER_SIZE_BYTES :: nat where
  "HEADER_SIZE_BYTES = 10 * 1024"

text \<open>
  \<^verbatim>\<open>Math.ceil(a / b)\<close> for integers \<open>0 \<le> a\<close> and \<open>0 < b\<close> below \<open>2^53\<close>, where the
  floating-point quotient cannot cross an integer.
\<close>

definition ceil_div :: "nat \<Rightarrow> nat \<Rightarrow> nat" where
  "ceil_div a b = (a + b - 1) div b"

text \<open>
  \<^verbatim>\<open>totalChunks = Math.ceil((blob.size - HEADER_SIZE_BYTES) / (MAX_CHUNK_SIZE_BYTES - HEADER_SIZE_BYTES))\<close>,
  computed only where \<^verbatim>\<open>blob.size > MAX_CHUNK_SIZE_BYTES\<close>, so that the subtraction
  does not go below zero.
\<close>

definition totalChunks :: "nat \<Rightarrow> nat" where
  "totalChunks size' =
     ceil_div (size' - HEADER_SIZE_BYTES) (MAX_CHUNK_SIZE_BYTES - HEADER_SIZE_BYTES)"

text \<open>\<^verbatim>\<open>start = i * (MAX_CHUNK_SIZE_BYTES - HEADER_SIZE_BYTES)\<close>\<close>

definition chunk_start :: "nat \<Rightarrow> nat" where
  "chunk_start i = i * (MAX_CHUNK_SIZE_BYTES - HEADER_SIZE_BYTES)"

text \<open>\<^verbatim>\<open>end = Math.min(start + (MAX_CHUNK_SIZE_BYTES - HEADER_SIZE_BYTES), blob.size)\<close>\<close>

definition chunk_end :: "nat \<Rightarrow> nat \<Rightarrow> nat" where
  "chunk_end size' i =
     min (chunk_start i + (MAX_CHUNK_SIZE_BYTES - HEADER_SIZE_BYTES)) size'"

text \<open>
  The byte ranges \<open>(start, end)\<close> that processRecording cuts a payload of the given size
  into: the whole payload when it fits one request, else the range of every loop
  index \<open>i < totalChunks\<close>.
\<close>

definition piece_plan :: "nat \<Rightarrow> (nat \<times> nat) list" where
  "piece_plan size' =
     (if size' \<le> MAX_CHUNK_SIZE_BYTES then [(0, size')]
      else map (\<lambda>i. (chunk_start i, chunk_end size' i)) [0..<totalChunks size'])"

section \<open>The recording store (dbService.ts)\<close>

text \<open>
  The module keeps one handle \<^verbatim>\<open>db\<close>, unset until \<^verbatim>\<open>initDB\<close> has run, and the object
  store \<^verbatim>\<open>recordings\<close> with key path \<^verbatim>\<open>id\<close>: a partial map from keys to records, where
  \<^verbatim>\<open>put\<close> files a record under its own \<^verbatim>\<open>id\<close>. The model covers the rejections the
  module decides itself (no handle, no record); requests that the browser's IndexedDB
  fails (the \<^verbatim>\<open>onerror\<close> callbacks) are outside it.
\<close>

record Database =
  db_opened :: bool
  db_recordings :: "nat \<rightharpoonup> Recording"

definition getRecording :: "nat \<Rightarrow> Database \<Rightarrow> thrown + Recording option" where
  "getRecording id' db =
     (if \<not> db_opened db then Inl (NonError ''Database not initialized.'')
      else Inr (db_recordings db id'))"

text \<open>
  \<^verbatim>\<open>Partial<Omit<Recording, 'id'>>\<close>: every field but \<^verbatim>\<open>id\<close>, each one listed
  (\<open>Some\<close>) or not (\<open>None\<close>).
\<close>

record Updates =
  u_name :: "string option"
  u_size :: "nat option"
  u_mimeType :: "string option"
  u_status :: "RecordingStatus option"
  u_progress :: "nat option"
  u_transcriptChunks :: "TranscriptChunk list option"
  u_formattedNotes :: "string option"
  u_blob :: "Blob option"

definition no_updates :: Updates where
  "no_updates =
     \<lparr>u_name = None, u_size = None, u_mimeType = None, u_status = None, u_progress = None,
      u_transcriptChunks = None, u_formattedNotes = None, u_blob = None\<rparr>"

text \<open>\<^verbatim>\<open>{ ...data, ...updates }\<close>\<close>

definition merge :: "Recording \<Rightarrow> Updates \<Rightarrow> Recording" where
  "merge data updates =
     \<lparr>rec_id = rec_id data,
      rec_name = (case u_name updates of None \<Rightarrow> rec_name data | Some v \<Rightarrow> v),
      rec_size = (case u_size updates of None \<Rightarrow> rec_size data | Some v \<Rightarrow> v),
      rec_mimeType = (case u_mimeType updates of None \<Rightarrow> rec_mimeType data | Some v \<Rightarrow> v),
      rec_status = (case u_status updates of None \<Rightarrow> rec_status data | Some v \<Rightarrow> v),
      rec_progress = (case u_progress updates of None \<Rightarrow> rec_progress data | Some v \<Rightarrow> v),
      rec_transcriptChunks =
        (case u_transcriptChunks updates of None \<Rightarrow> rec_transcriptChunks data | Some v \<Rightarrow> v),
      rec_formattedNotes =
        (case u_formattedNotes updates of None \<Rightarrow> rec_formattedNotes data | Some v \<Rightarrow> Some v),
      rec_blob = (case u_blob updates of None \<Rightarrow> rec_blob data | Some v \<Rightarrow> v)\<rparr>"

definition updateRecording :: "nat \<Rightarrow> Updates \<Rightarrow> Database \<Rightarrow> (thrown + unit) \<times> Database" where
  "updateRecording id' updates db =
     (if \<not> db_opened db then (Inl (NonError ''Database not initialized.''), db)
      else case db_recordings db id' of
        Some data \<Rightarrow>
          (let updatedData = merge data updates
           in (Inr (), db\<lparr>db_recordings := (db_recordings db)(rec_id updatedData \<mapsto> updatedData)\<rparr>))
      | None \<Rightarrow> (Inl (NonError ''Recording not found for update.''), db))"

section \<open>The remote model calls (geminiService.ts)\<close>

text \<open>
  A request to \<^verbatim>\<open>ai.models.generateContent\<close> names a model and carries its contents: the
  audio part (media type and data) with the prompt, or a prompt alone. The base64 text
  of the audio stands for the bytes it encodes, and reading a blob that is in memory is
  taken to succeed.
\<close>

datatype contents = AudioParts string "nat list" string | TextPrompt string

record request =
  req_model :: string
  req_contents :: contents

text \<open>
  What becomes of the promise of one request: fulfilled with a response whose
  \<^verbatim>\<open>text\<close> may be undefined, or rejected, after so many milliseconds; or never settled.
  The remote service is a function from the requests made so far and the request at
  hand to its reply, so that the same request may be answered differently when it is
  made again.
\<close>

datatype reply = Fulfilled nat "string option" | Rejected nat thrown | Pending

type_synonym remote = "request list \<Rightarrow> request \<Rightarrow> reply"

text \<open>
  \<^verbatim>\<open>withTimeout(promise, ms, errorMessage)\<close> races the promise against a timer: the
  promise wins when it settles before \<open>ms\<close> milliseconds have passed.
\<close>

definition withTimeout :: "reply \<Rightarrow> nat \<Rightarrow> string \<Rightarrow> thrown + string option" where
  "withTimeout promise ms errorMessage =
     (case promise of
        Fulfilled t v \<Rightarrow> if t < ms then Inr v else Inl (Error errorMessage)
      | Rejected t e \<Rightarrow> if t < ms then Inl e else Inl (Error errorMessage)
      | Pending \<Rightarrow> Inl (Error errorMessage))"

text \<open>\<^verbatim>\<open>response.text ?? ''\<close>\<close>

definition text_or_empty :: "string option \<Rightarrow> string" where
  "text_or_empty t = (case t of None \<Rightarrow> [] | Some v \<Rightarrow> v)"

text \<open>\<^verbatim>\<open>error instanceof Error && error.message.includes('timed out')\<close>\<close>

fun is_timed_out :: "thrown \<Rightarrow> bool" where
  "is_timed_out (Error m) = includes_str m ''timed out''"
| "is_timed_out (NonError v) = False"

text \<open>The outer \<^verbatim>\<open>catch\<close> of transcribeAudio: what it throws for what it caught.\<close>

fun transcription_error :: "thrown \<Rightarrow> thrown" where
  "transcription_error (Error m) = Error (''Error transcribing audio: '' @ m)"
| "transcription_error (NonError v) = Error ''An unknown error occurred during transcription.''"

text \<open>The request that transcribeAudio sends to a model.\<close>

definition transcription_request :: "string \<Rightarrow> Blob \<Rightarrow> string \<Rightarrow> string \<Rightarrow> request" where
  "transcription_request model audioBlob mimeType prompt =
     \<lparr>req_model = model,
      req_contents = AudioParts (before_semicolon mimeType) (blob_bytes audioBlob) prompt\<rparr>"

definition transcribeAudio ::
  "remote \<Rightarrow> Blob \<Rightarrow> string \<Rightarrow> string \<Rightarrow> request list \<Rightarrow> (thrown + string) \<times> request list" where
  "transcribeAudio remote audioBlob mimeType prompt calls =
     (let attempt = transcription_request ''gemini-flash-lite-latest'' audioBlob mimeType prompt;
          retry = transcription_request ''gemini-2.5-pro'' audioBlob mimeType prompt
      in case withTimeout (remote calls attempt) 60000
                ''Transcription request timed out after 60 seconds.'' of
           Inr response \<Rightarrow> (Inr (text_or_empty response), calls @ [attempt])
         | Inl error \<Rightarrow>
             if is_timed_out error then
               (case withTimeout (remote (calls @ [attempt]) retry) 120000
                       ''Transcription retry request timed out after 120 seconds.'' of
                  Inr retryResponse \<Rightarrow> (Inr (text_or_empty retryResponse), calls @ [attempt, retry])
                | Inl retryError \<Rightarrow> (Inl (transcription_error retryError), calls @ [attempt, retry]))
             else (Inl (transcription_error error), calls @ [attempt]))"

definition nl :: string where
  "nl = [CHR 0x0A]"

definition notes_prompt :: "string \<Rightarrow> string \<Rightarrow> string" where
  "notes_prompt customInstruction transcription =
     nl @ customInstruction @ nl @ nl @ ''Here is the meeting transcription:'' @ nl
       @ ''---'' @ nl @ transcription @ nl @ ''---'' @ nl"

definition formatNotes ::
  "remote \<Rightarrow> string \<Rightarrow> string \<Rightarrow> string \<Rightarrow> request list \<Rightarrow> (thrown + string) \<times> request list" where
  "formatNotes remote transcription customInstruction model calls =
     (if trim transcription = [] then (Inl (Error ''Transcription is empty.''), calls)
      else if trim customInstruction = [] then (Inl (Error ''Custom instruction is empty.''), calls)
      else
        let format = \<lparr>req_model = model,
                        req_contents = TextPrompt (notes_prompt customInstruction transcription)\<rparr>
        in (case withTimeout (remote calls format) 120000
                   ''Formatting notes request timed out after 120 seconds.'' of
              Inr response \<Rightarrow> Inr (text_or_empty response)
            | Inl (Error m) \<Rightarrow>
                Inr (''Error formatting notes: '' @ m @ ''. Please check the console for more details.'')
            | Inl (NonError v) \<Rightarrow> Inr ''An unknown error occurred while formatting notes.'',
            calls @ [format]))"

section \<open>The application state and the transcription pipeline (component App)\<close>

text \<open>
  The component \<^verbatim>\<open>App\<close> is the third unit of \<^verbatim>\<open>src/components/VocabularyModal.tsx\<close>.
  The state that its handlers read and write: the component's state
  variables (prefix \<open>st_\<close>), the recording store, the log of the remote requests made so
  far, and the save that the debounce timer of handleUpdateNotes holds back. A handler
  reads a state variable as it was when the handler was called. The list of saved
  recordings and the status line are only displayed and are left out.
\<close>

record App =
  st_db :: Database
  st_calls :: "request list"
  st_isTranscribing :: bool
  st_isGenerating :: bool
  st_transcriptChunks :: "TranscriptChunk list"
  st_instruction :: string
  st_transcriptionPrompt :: string
  st_generatedNotes :: string
  st_error :: "string option"
  st_recordedAudioBlob :: "Blob option"
  st_activeRecordingId :: "nat option"
  st_vocabulary :: "VocabularyItem list"
  st_selectedModel :: string
  st_noteUpdateTimeout :: "(nat \<times> string) option"

text \<open>
  loadRecordings refreshes the displayed list and catches its own failure, which it
  reports in the error state.
\<close>

definition loadRecordings :: "App \<Rightarrow> App" where
  "loadRecordings s =
     (if db_opened (st_db s) then s else s\<lparr>st_error := Some ''Could not load saved recordings.''\<rparr>)"

definition vocab_line :: "VocabularyItem \<Rightarrow> string" where
  "vocab_line v =
     ''- '' @ trim (voc_word v)
       @ (if trim (voc_description v) \<noteq> [] then '': '' @ trim (voc_description v) else [])"

definition buildTranscriptionPromptWithVocabulary :: "App \<Rightarrow> string" where
  "buildTranscriptionPromptWithVocabulary s =
     (if length (st_vocabulary s) > 0 then
        st_transcriptionPrompt s @ nl @ nl @ ''---'' @ nl @ ''Custom Vocabulary:'' @ nl
          @ ''Please give special consideration to the following words, phrases, and their spellings during transcription.''
          @ nl @ join nl (map vocab_line (st_vocabulary s)) @ nl @ ''---''
      else st_transcriptionPrompt s)"

text \<open>
  The \<^verbatim>\<open>catch\<close> of the single-piece branch: piece 0 is failed with the message, the
  recording is stored as failed with progress 100, and the error is thrown again.
\<close>

definition single_catch :: "nat \<Rightarrow> thrown \<Rightarrow> App \<Rightarrow> (thrown + unit) \<times> App" where
  "single_catch id' e s =
     (let failedChunk = \<lparr>tc_index = 0, tc_content = message_or_string e, tc_status = ChunkFailed\<rparr>;
          s1 = s\<lparr>st_transcriptChunks := [failedChunk]\<rparr>
      in case updateRecording id'
                (no_updates\<lparr>u_transcriptChunks := Some [failedChunk], u_status := Some Failed,
                   u_progress := Some 100\<rparr>) (st_db s1) of
           (Inl e2, db1) \<Rightarrow> (Inl e2, s1)
         | (Inr u, db1) \<Rightarrow> (Inl e, s1\<lparr>st_db := db1\<rparr>))"

text \<open>The branch \<^verbatim>\<open>blob.size <= MAX_CHUNK_SIZE_BYTES\<close> of processRecording.\<close>

definition process_single :: "remote \<Rightarrow> nat \<Rightarrow> Blob \<Rightarrow> string \<Rightarrow> App \<Rightarrow> (thrown + unit) \<times> App" where
  "process_single remote id' blob finalPrompt s =
     (case updateRecording id' (no_updates\<lparr>u_progress := Some 10\<rparr>) (st_db s) of
        (Inl e, db1) \<Rightarrow> (Inl e, s)
      | (Inr u, db1) \<Rightarrow>
          (let s1 = loadRecordings (s\<lparr>st_db := db1\<rparr>);
               newChunk = \<lparr>tc_index = 0, tc_content = [], tc_status = ChunkProcessing\<rparr>;
               s2 = s1\<lparr>st_transcriptChunks := [newChunk]\<rparr>
           in case transcribeAudio remote blob (before_semicolon (blob_type blob)) finalPrompt
                     (st_calls s2) of
                (Inl e, calls1) \<Rightarrow> single_catch id' e (s2\<lparr>st_calls := calls1\<rparr>)
              | (Inr fullTranscript, calls1) \<Rightarrow>
                  (let completedChunk =
                         \<lparr>tc_index = 0, tc_content = trim fullTranscript, tc_status = ChunkCompleted\<rparr>;
                       s3 = s2\<lparr>st_calls := calls1, st_transcriptChunks := [completedChunk]\<rparr>
                   in case updateRecording id'
                             (no_updates\<lparr>u_transcriptChunks := Some [completedChunk],
                                u_status := Some Completed, u_progress := Some 100\<rparr>) (st_db s3) of
                        (Inl e, db2) \<Rightarrow> single_catch id' e s3
                      | (Inr u2, db2) \<Rightarrow> (Inr (), s3\<lparr>st_db := db2\<rparr>))))"

text \<open>
  \<^verbatim>\<open>Math.round(((i + 1) / totalChunks) * 95)\<close>, read in exact arithmetic (halves round
  up).
\<close>

definition chunk_progress :: "nat \<Rightarrow> nat \<Rightarrow> nat" where
  "chunk_progress i totalN = (2 * ((i + 1) * 95) + totalN) div (2 * totalN)"

text \<open>
  The \<^verbatim>\<open>for\<close> loop of the multi-piece branch over the indices still to come. The array
  \<^verbatim>\<open>finalChunks\<close> has one entry for every index of the loop, so that
  \<^verbatim>\<open>finalChunks[i]\<close> is always in range. A failed transcription is caught inside the
  loop; a failed write to the store leaves the loop with the error.
\<close>

fun chunk_loop ::
  "remote \<Rightarrow> nat \<Rightarrow> Blob \<Rightarrow> Blob \<Rightarrow> string \<Rightarrow> nat \<Rightarrow> nat list \<Rightarrow> TranscriptChunk list \<Rightarrow> App
     \<Rightarrow> (thrown + TranscriptChunk list) \<times> App" where
  "chunk_loop remote id' blob header finalPrompt totalN [] finalChunks s = (Inr finalChunks, s)"
| "chunk_loop remote id' blob header finalPrompt totalN (i # rest) finalChunks s =
     (let start = chunk_start i;
          end' = chunk_end (blob_size blob) i;
          chunkBlob = blob_slice start end' (blob_type blob) blob
      in if blob_size chunkBlob = 0 then
           chunk_loop remote id' blob header finalPrompt totalN rest
             (finalChunks[i := (finalChunks ! i)\<lparr>tc_status := ChunkCompleted\<rparr>]) s
         else
           (let blobToSend =
                  (if i = 0 then chunkBlob else blob_concat [header, chunkBlob] (blob_type blob));
                result = transcribeAudio remote blobToSend (before_semicolon (blob_type blob))
                           finalPrompt (st_calls s);
                finalChunks1 =
                  (case fst result of
                     Inr transcriptPart \<Rightarrow>
                       finalChunks[i := (finalChunks ! i)
                         \<lparr>tc_content := trim transcriptPart, tc_status := ChunkCompleted\<rparr>]
                   | Inl chunkError \<Rightarrow>
                       finalChunks[i := (finalChunks ! i)
                         \<lparr>tc_content := message_or_string chunkError, tc_status := ChunkFailed\<rparr>]);
                s1 = s\<lparr>st_calls := snd result, st_transcriptChunks := finalChunks1\<rparr>;
                progress = chunk_progress i totalN
            in case updateRecording id'
                      (no_updates\<lparr>u_transcriptChunks := Some finalChunks1,
                         u_progress := Some progress\<rparr>) (st_db s1) of
                 (Inl e, db1) \<Rightarrow> (Inl e, s1)
               | (Inr u, db1) \<Rightarrow>
                   chunk_loop remote id' blob header finalPrompt totalN rest finalChunks1
                     (loadRecordings (s1\<lparr>st_db := db1\<rparr>))))"

text \<open>The branch \<^verbatim>\<open>blob.size > MAX_CHUNK_SIZE_BYTES\<close> of processRecording.\<close>

definition process_multi :: "remote \<Rightarrow> nat \<Rightarrow> Blob \<Rightarrow> string \<Rightarrow> App \<Rightarrow> (thrown + unit) \<times> App" where
  "process_multi remote id' blob finalPrompt s =
     (let totalN = totalChunks (blob_size blob);
          header = blob_slice 0 HEADER_SIZE_BYTES (blob_type blob) blob;
          initialChunks =
            map (\<lambda>i. \<lparr>tc_index = i, tc_content = [], tc_status = ChunkProcessing\<rparr>) [0..<totalN];
          s1 = s\<lparr>st_transcriptChunks := initialChunks\<rparr>
      in case updateRecording id'
                (no_updates\<lparr>u_transcriptChunks := Some initialChunks, u_progress := Some 10\<rparr>)
                (st_db s1) of
           (Inl e, db1) \<Rightarrow> (Inl e, s1)
         | (Inr u, db1) \<Rightarrow>
             (case chunk_loop remote id' blob header finalPrompt totalN [0..<totalN] initialChunks
                     (loadRecordings (s1\<lparr>st_db := db1\<rparr>)) of
                (Inl e, s2) \<Rightarrow> (Inl e, s2)
              | (Inr finalChunks, s2) \<Rightarrow>
                  (let allSucceeded = list_all (\<lambda>c. tc_status c = ChunkCompleted) finalChunks
                   in case updateRecording id'
                             (no_updates\<lparr>u_status := Some (if allSucceeded then Completed else Failed),
                                u_progress := Some 100\<rparr>) (st_db s2) of
                        (Inl e, db2) \<Rightarrow> (Inl e, s2)
                      | (Inr u2, db2) \<Rightarrow> (Inr (), s2\<lparr>st_db := db2\<rparr>))))"

text \<open>
  The body of the \<^verbatim>\<open>try\<close> of processRecording once the recording is loaded: the
  short cut for a completed recording, else the reset of the stored record and one of
  the two branches.
\<close>

definition process_loaded :: "remote \<Rightarrow> nat \<Rightarrow> Recording \<Rightarrow> App \<Rightarrow> (thrown + unit) \<times> App" where
  "process_loaded remote id' recording s =
     (let s1 = s\<lparr>st_recordedAudioBlob := Some (rec_blob recording),
                 st_transcriptChunks := rec_transcriptChunks recording,
                 st_generatedNotes :=
                   (case rec_formattedNotes recording of None \<Rightarrow> [] | Some n \<Rightarrow> n)\<rparr>
      in if rec_status recording = Completed \<and> length (rec_transcriptChunks recording) > 0 then
           (Inr (), s1\<lparr>st_isTranscribing := False\<rparr>)
         else
           (case updateRecording id'
                   (no_updates\<lparr>u_status := Some Transcribing, u_progress := Some 5,
                      u_transcriptChunks := Some []\<rparr>) (st_db s1) of
              (Inl e, db1) \<Rightarrow> (Inl e, s1)
            | (Inr u, db1) \<Rightarrow>
                (let s2 = loadRecordings (s1\<lparr>st_db := db1\<rparr>);
                     blob = rec_blob recording;
                     finalPrompt = buildTranscriptionPromptWithVocabulary s2
                 in case (if blob_size blob \<le> MAX_CHUNK_SIZE_BYTES
                          then process_single remote id' blob finalPrompt s2
                          else process_multi remote id' blob finalPrompt s2) of
                      (Inl e, s3) \<Rightarrow> (Inl e, s3)
                    | (Inr u2, s3) \<Rightarrow> (Inr (), loadRecordings s3))))"

text \<open>
  The \<^verbatim>\<open>catch\<close> of processRecording: the error goes to the error state and, when the
  recording had been loaded, the stored record is set to failed with progress 0.
\<close>

definition process_catch :: "Recording option \<Rightarrow> thrown \<Rightarrow> App \<Rightarrow> (thrown + unit) \<times> App" where
  "process_catch recording err s =
     (let s1 = s\<lparr>st_error := Some (''Processing failed: '' @ message_in_template err
                  @ ''. The file might be too large or in an unsupported format.'')\<rparr>
      in case recording of
           None \<Rightarrow> (Inr (), s1)
         | Some r \<Rightarrow>
             (case updateRecording (rec_id r)
                     (no_updates\<lparr>u_status := Some Failed, u_progress := Some 0\<rparr>) (st_db s1) of
                (Inl e, db1) \<Rightarrow> (Inl e, s1)
              | (Inr u, db1) \<Rightarrow> (Inr (), loadRecordings (s1\<lparr>st_db := db1\<rparr>))))"

text \<open>The \<^verbatim>\<open>finally\<close> of processRecording.\<close>

definition process_finally :: "(thrown + unit) \<times> App \<Rightarrow> (thrown + unit) \<times> App" where
  "process_finally r = (fst r, (snd r)\<lparr>st_isTranscribing := False\<rparr>)"

text \<open>
  processRecording: \<open>Inr ()\<close> when the promise it returns is fulfilled, \<open>Inl\<close> when an
  error leaves its \<^verbatim>\<open>catch\<close> block.
\<close>

definition processRecording :: "remote \<Rightarrow> nat \<Rightarrow> App \<Rightarrow> (thrown + unit) \<times> App" where
  "processRecording remote id' s =
     (let s1 = s\<lparr>st_transcriptChunks := [], st_generatedNotes := [], st_error := None,
                 st_isTranscribing := True, st_activeRecordingId := Some id'\<rparr>
      in process_finally
           (case getRecording id' (st_db s1) of
              Inl e \<Rightarrow> process_catch None e s1
            | Inr None \<Rightarrow> process_catch None (Error ''Recording not found in database.'') s1
            | Inr (Some recording) \<Rightarrow>
                (case process_loaded remote id' recording s1 of
                   (Inl e, s2) \<Rightarrow> process_catch (Some recording) e s2
                 | (Inr u, s2) \<Rightarrow> (Inr (), s2))))"

section \<open>Retrying one piece (component App)\<close>

text \<open>
  The body of the \<^verbatim>\<open>try\<close> of handleRetryChunkTranscription. The byte range of the piece
  is computed again from the index and the size of the payload.
\<close>

definition retry_try :: "remote \<Rightarrow> nat \<Rightarrow> nat \<Rightarrow> App \<Rightarrow> (thrown + unit) \<times> App" where
  "retry_try remote chunkIndex activeRecordingId s =
     (case getRecording activeRecordingId (st_db s) of
        Inl e \<Rightarrow> (Inl e, s)
      | Inr None \<Rightarrow> (Inl (Error ''Recording not found''), s)
      | Inr (Some recording) \<Rightarrow>
          (let blob = rec_blob recording;
               updatedChunks =
                 map (\<lambda>c. if tc_index c = chunkIndex then c\<lparr>tc_status := ChunkProcessing\<rparr> else c)
                   (st_transcriptChunks s);
               s1 = s\<lparr>st_transcriptChunks := updatedChunks\<rparr>;
               start = chunk_start chunkIndex;
               end' = chunk_end (blob_size blob) chunkIndex;
               chunkBlob = blob_slice start end' (blob_type blob) blob;
               blobToSend =
                 (if chunkIndex > 0 \<and> blob_size blob > MAX_CHUNK_SIZE_BYTES
                  then blob_concat [blob_slice 0 HEADER_SIZE_BYTES (blob_type blob) blob, chunkBlob]
                         (blob_type blob)
                  else chunkBlob);
               finalPrompt = buildTranscriptionPromptWithVocabulary s
           in case transcribeAudio remote blobToSend (before_semicolon (blob_type blob)) finalPrompt
                     (st_calls s1) of
                (Inl e, calls1) \<Rightarrow> (Inl e, s1\<lparr>st_calls := calls1\<rparr>)
              | (Inr transcriptPart, calls1) \<Rightarrow>
                  (let finalChunks =
                         map (\<lambda>c. if tc_index c = chunkIndex
                                   then c\<lparr>tc_status := ChunkCompleted, tc_content := trim transcriptPart\<rparr>
                                   else c) updatedChunks;
                       s2 = s1\<lparr>st_calls := calls1, st_transcriptChunks := finalChunks\<rparr>
                   in case updateRecording activeRecordingId
                             (no_updates\<lparr>u_transcriptChunks := Some finalChunks\<rparr>) (st_db s2) of
                        (Inl e, db1) \<Rightarrow> (Inl e, s2)
                      | (Inr u, db1) \<Rightarrow> (Inr (), s2\<lparr>st_db := db1\<rparr>))))"

text \<open>
  The \<^verbatim>\<open>catch\<close> of handleRetryChunkTranscription. It starts again from the pieces as they
  were when the handler was called.
\<close>

definition retry_catch ::
  "nat \<Rightarrow> nat \<Rightarrow> TranscriptChunk list \<Rightarrow> thrown \<Rightarrow> App \<Rightarrow> (thrown + unit) \<times> App" where
  "retry_catch chunkIndex activeRecordingId transcriptChunks err s =
     (let finalChunks =
            map (\<lambda>c. if tc_index c = chunkIndex
                      then c\<lparr>tc_status := ChunkFailed, tc_content := message_or_string err\<rparr>
                      else c) transcriptChunks;
          s1 = s\<lparr>st_error := Some (''Failed to retry chunk: '' @ message_in_template err),
                 st_transcriptChunks := finalChunks\<rparr>
      in case updateRecording activeRecordingId
                (no_updates\<lparr>u_transcriptChunks := Some finalChunks\<rparr>) (st_db s1) of
           (Inl e, db1) \<Rightarrow> (Inl e, s1)
         | (Inr u, db1) \<Rightarrow> (Inr (), s1\<lparr>st_db := db1\<rparr>))"

definition handleRetryChunkTranscription :: "remote \<Rightarrow> nat \<Rightarrow> App \<Rightarrow> (thrown + unit) \<times> App" where
  "handleRetryChunkTranscription remote chunkIndex s =
     (case st_activeRecordingId s of
        None \<Rightarrow> (Inr (), s)
      | Some activeRecordingId \<Rightarrow>
          if activeRecordingId = 0 then (Inr (), s)
          else
            (let s1 = s\<lparr>st_error := None, st_isTranscribing := True\<rparr>;
                 tried = retry_try remote chunkIndex activeRecordingId s1;
                 caught =
                   (case fst tried of
                      Inr u \<Rightarrow> (Inr (), snd tried)
                    | Inl err \<Rightarrow>
                        retry_catch chunkIndex activeRecordingId (st_transcriptChunks s) err
                          (snd tried))
             in (fst caught, loadRecordings ((snd caught)\<lparr>st_isTranscribing := False\<rparr>))))"

section \<open>Generating the notes (component App)\<close>

text \<open>\<^verbatim>\<open>transcriptChunks.map(c => c.content).join(' ')\<close>\<close>

definition fullTranscript :: "TranscriptChunk list \<Rightarrow> string" where
  "fullTranscript transcriptChunks = join '' '' (map tc_content transcriptChunks)"

text \<open>
  \<^verbatim>\<open>setError(e.message)\<close>: the message of an \<^verbatim>\<open>Error\<close>, and no text for another value.
\<close>

fun message_of :: "thrown \<Rightarrow> string option" where
  "message_of (Error m) = Some m"
| "message_of (NonError v) = None"

definition handleGenerateNotes :: "remote \<Rightarrow> App \<Rightarrow> App" where
  "handleGenerateNotes remote s =
     (if fullTranscript (st_transcriptChunks s) = [] then
        s\<lparr>st_error := Some ''There is no transcript to process.''\<rparr>
      else
        (let s1 = s\<lparr>st_isGenerating := True, st_error := None, st_generatedNotes := []\<rparr>;
             formatted = formatNotes remote (fullTranscript (st_transcriptChunks s))
                           (st_instruction s) (st_selectedModel s) (st_calls s1);
             s2 = s1\<lparr>st_calls := snd formatted\<rparr>;
             s3 =
               (case fst formatted of
                  Inl e \<Rightarrow> s2\<lparr>st_error := message_of e\<rparr>
                | Inr notes \<Rightarrow>
                    (let s4 = s2\<lparr>st_generatedNotes := notes\<rparr>
                     in case st_activeRecordingId s of
                          None \<Rightarrow> s4
                        | Some activeRecordingId \<Rightarrow>
                            if activeRecordingId = 0 then s4
                            else
                              (case updateRecording activeRecordingId
                                      (no_updates\<lparr>u_formattedNotes := Some notes\<rparr>) (st_db s4) of
                                 (Inl e, db1) \<Rightarrow> s4\<lparr>st_error := message_of e\<rparr>
                               | (Inr u, db1) \<Rightarrow> loadRecordings (s4\<lparr>st_db := db1\<rparr>))))
         in s3\<lparr>st_isGenerating := False\<rparr>))"

section \<open>Text substitution and the vocabulary (component App)\<close>

text \<open>
  The characters of the class \<^verbatim>\<open>[.*+?^${}()|[\]\\]\<close> of escapeRegExp, which are the
  syntax characters of a regular expression.
\<close>

definition regex_special :: "char \<Rightarrow> bool" where
  "regex_special c =
     (c \<in> set [CHR ''.'', CHR ''*'', CHR ''+'', CHR ''?'', CHR ''^'', CHR ''$'', CHR ''{'',
                CHR ''}'', CHR ''('', CHR '')'', CHR ''|'', CHR ''['', CHR '']'', CHR 0x5C])"

text \<open>
  \<^verbatim>\<open>string.replace(/[.*+?^${}()|[\]\\]/g, '\\$&')\<close>: a backslash before every syntax
  character.
\<close>

definition escapeRegExp :: "string \<Rightarrow> string" where
  "escapeRegExp s = concat (map (\<lambda>c. if regex_special c then [CHR 0x5C, c] else [c]) s)"

text \<open>
  \<^verbatim>\<open>new RegExp(source, 'g')\<close> for a source made of plain characters and of syntax
  characters that each follow a backslash: such a pattern matches one text, character by
  character, and that text is the result. A source with a syntax character that is not
  escaped, or with another escape, is outside this fragment of the language of
  ECMAScript patterns and gets \<open>None\<close>.
\<close>

fun regexp_literal :: "string \<Rightarrow> string option" where
  "regexp_literal [] = Some []"
| "regexp_literal [c] = (if regex_special c then None else Some [c])"
| "regexp_literal (c # d # ds) =
     (if c = CHR 0x5C then
        (if regex_special d then map_option ((#) d) (regexp_literal ds) else None)
      else if regex_special c then None
      else map_option ((#) c) (regexp_literal (d # ds)))"

text \<open>
  The replacement text of \<^verbatim>\<open>String.prototype.replace\<close> is a template (GetSubstitution of
  ECMAScript): \<^verbatim>\<open>$$\<close> stands for a dollar sign, \<^verbatim>\<open>$&\<close> for the matched text, a dollar
  sign with a backquote for the text before the match and with a quote for the text
  after it. The pattern has no groups, so every other dollar sign stands for itself.
\<close>

fun expand_replacement :: "string \<Rightarrow> string \<Rightarrow> string \<Rightarrow> string \<Rightarrow> string" where
  "expand_replacement matched passed ahead [] = []"
| "expand_replacement matched passed ahead [c] = [c]"
| "expand_replacement matched passed ahead (c # d # ds) =
     (if c = CHR ''$'' then
        (if d = CHR ''$'' then CHR ''$'' # expand_replacement matched passed ahead ds
         else if d = CHR ''&'' then matched @ expand_replacement matched passed ahead ds
         else if d = CHR 0x60 then passed @ expand_replacement matched passed ahead ds
         else if d = CHR 0x27 then ahead @ expand_replacement matched passed ahead ds
         else c # expand_replacement matched passed ahead (d # ds))
      else c # expand_replacement matched passed ahead (d # ds))"

text \<open>
  \<^verbatim>\<open>text.replace(regexp, replacement)\<close> for a global pattern that matches the text
  \<open>lit\<close>: the matches are found from left to right and do not overlap, and the empty
  pattern matches once at every position. \<open>passed\<close> is the part of the text already
  passed.
\<close>

fun replace_matches :: "string \<Rightarrow> string \<Rightarrow> string \<Rightarrow> string \<Rightarrow> string" where
  "replace_matches lit replacement passed [] =
     (if lit = [] then expand_replacement [] passed [] replacement else [])"
| "replace_matches lit replacement passed (c # cs) =
     (if lit = [] then
        expand_replacement [] passed (c # cs) replacement
          @ c # replace_matches lit replacement (passed @ [c]) cs
      else if starts_with (c # cs) lit then
        expand_replacement lit passed (drop (length lit - 1) cs) replacement
          @ replace_matches lit replacement (passed @ lit) (drop (length lit - 1) cs)
      else c # replace_matches lit replacement (passed @ [c]) cs)"

text \<open>
  \<^verbatim>\<open>content.replace(new RegExp(escapeRegExp(oldText), 'g'), newText)\<close>
\<close>

definition replace_all_occurrences :: "string \<Rightarrow> string \<Rightarrow> string \<Rightarrow> thrown + string" where
  "replace_all_occurrences oldText newText content' =
     (case regexp_literal (escapeRegExp oldText) of
        None \<Rightarrow> Inl (Error ''Invalid regular expression'')
      | Some lit \<Rightarrow> Inr (replace_matches lit newText [] content'))"

text \<open>
  \<^verbatim>\<open>text.substring(0, start) + newText + text.substring(end)\<close>
\<close>

definition replace_range :: "nat \<Rightarrow> nat \<Rightarrow> string \<Rightarrow> string \<Rightarrow> string" where
  "replace_range start end' newText content' = take start content' @ newText @ drop end' content'"

text \<open>
  The function that both edit handlers pass to \<^verbatim>\<open>setVocabulary\<close>; \<open>now\<close> is
  \<^verbatim>\<open>Date.now()\<close>.
\<close>

definition add_correction :: "nat \<Rightarrow> string \<Rightarrow> string \<Rightarrow> VocabularyItem list \<Rightarrow> VocabularyItem list" where
  "add_correction now oldText newText prev =
     (let trimmedNewText = trim newText
      in if list_ex (\<lambda>item. toLowerCase (voc_word item) = toLowerCase trimmedNewText) prev
         then prev
         else prev @ [\<lparr>voc_id = now, voc_word = trimmedNewText,
                        voc_description =
                          ''Corrected from '' @ [CHR 0x22] @ trim oldText @ [CHR 0x22]\<rparr>])"

text \<open>
  A callback of \<^verbatim>\<open>Array.prototype.map\<close> that throws ends the whole \<^verbatim>\<open>map\<close>.
\<close>

fun map_throwing :: "('a \<Rightarrow> thrown + 'b) \<Rightarrow> 'a list \<Rightarrow> thrown + 'b list" where
  "map_throwing f [] = Inr []"
| "map_throwing f (x # xs) =
     (case f x of
        Inl e \<Rightarrow> Inl e
      | Inr y \<Rightarrow> (case map_throwing f xs of Inl e \<Rightarrow> Inl e | Inr ys \<Rightarrow> Inr (y # ys)))"

text \<open>The callback of \<^verbatim>\<open>transcriptChunks.map\<close> in handleEditAndUpdateVocabulary.\<close>

definition edit_chunk ::
  "string \<Rightarrow> string \<Rightarrow> bool \<Rightarrow> nat \<Rightarrow> nat \<Rightarrow> nat \<Rightarrow> nat \<times> TranscriptChunk \<Rightarrow> thrown + TranscriptChunk" where
  "edit_chunk oldText newText replaceAll chunkIndex start end' ic =
     (let index = fst ic; chunk = snd ic
      in if replaceAll then
           (case replace_all_occurrences oldText newText (tc_content chunk) of
              Inl e \<Rightarrow> Inl e
            | Inr newContent \<Rightarrow> Inr (chunk\<lparr>tc_content := newContent\<rparr>))
         else if index = chunkIndex then
           Inr (chunk\<lparr>tc_content := replace_range start end' newText (tc_content chunk)\<rparr>)
         else Inr (chunk\<lparr>tc_content := tc_content chunk\<rparr>))"

definition handleEditAndUpdateVocabulary ::
  "nat \<Rightarrow> string \<Rightarrow> string \<Rightarrow> bool \<Rightarrow> bool \<Rightarrow> nat \<Rightarrow> nat \<Rightarrow> nat \<Rightarrow> App \<Rightarrow> (thrown + unit) \<times> App" where
  "handleEditAndUpdateVocabulary now oldText newText replaceAll addToVocabulary chunkIndex
       start end' s =
     (if trim newText = [] then (Inr (), s)
      else
        (case map_throwing (edit_chunk oldText newText replaceAll chunkIndex start end')
                (enumerate 0 (st_transcriptChunks s)) of
           Inl e \<Rightarrow> (Inl e, s)
         | Inr newChunks \<Rightarrow>
             (let s1 = s\<lparr>st_transcriptChunks := newChunks\<rparr>;
                  s2 =
                    (case st_activeRecordingId s of
                       None \<Rightarrow> s1
                     | Some activeRecordingId \<Rightarrow>
                         if activeRecordingId = 0 then s1
                         else
                           (case updateRecording activeRecordingId
                                   (no_updates\<lparr>u_transcriptChunks := Some newChunks\<rparr>) (st_db s1) of
                              (Inl e, db1) \<Rightarrow> s1\<lparr>st_error := Some ''Failed to save transcript changes.''\<rparr>
                            | (Inr u, db1) \<Rightarrow> s1\<lparr>st_db := db1\<rparr>))
              in (Inr (),
                  if addToVocabulary
                  then s2\<lparr>st_vocabulary := add_correction now oldText newText (st_vocabulary s2)\<rparr>
                  else s2))))"

text \<open>
  handleUpdateNotes shows the new notes at once and arms the timer that saves them one
  second later; a timer already armed is cleared.
\<close>

definition handleUpdateNotes :: "string \<Rightarrow> App \<Rightarrow> App" where
  "handleUpdateNotes newNotes s =
     s\<lparr>st_generatedNotes := newNotes,
       st_noteUpdateTimeout :=
         (case st_activeRecordingId s of
            None \<Rightarrow> None
          | Some activeRecordingId \<Rightarrow>
              if activeRecordingId = 0 then None else Some (activeRecordingId, newNotes))\<rparr>"

definition handleNoteEditAndUpdateVocabulary ::
  "nat \<Rightarrow> string \<Rightarrow> string \<Rightarrow> bool \<Rightarrow> bool \<Rightarrow> nat \<Rightarrow> nat \<Rightarrow> App \<Rightarrow> (thrown + unit) \<times> App" where
  "handleNoteEditAndUpdateVocabulary now oldText newText replaceAll addToVocabulary start end' s =
     (if trim newText = [] then (Inr (), s)
      else
        (case (if replaceAll then replace_all_occurrences oldText newText (st_generatedNotes s)
               else Inr (replace_range start end' newText (st_generatedNotes s))) of
           Inl e \<Rightarrow> (Inl e, s)
         | Inr updatedNotes \<Rightarrow>
             (let s1 = handleUpdateNotes updatedNotes s
              in (Inr (),
                  if addToVocabulary
                  then s1\<lparr>st_vocabulary := add_correction now oldText newText (st_vocabulary s1)\<rparr>
                  else s1))))"

section \<open>Vocabulary of the properties\<close>

text \<open>
  The timer of \<^verbatim>\<open>withTimeout\<close> fires first: the promise has not settled when \<open>ms\<close>
  milliseconds have passed.
\<close>

definition timer_first :: "reply \<Rightarrow> nat \<Rightarrow> bool" where
  "timer_first promise ms =
     (case promise of Fulfilled t v \<Rightarrow> ms \<le> t | Rejected t e \<Rightarrow> ms \<le> t | Pending \<Rightarrow> True)"

text \<open>The bytes of piece \<open>i\<close>: \<^verbatim>\<open>blob.slice(start, end, blob.type)\<close>.\<close>

definition chunk_blob :: "Blob \<Rightarrow> nat \<Rightarrow> Blob" where
  "chunk_blob blob i =
     blob_slice (chunk_start i) (chunk_end (blob_size blob) i) (blob_type blob) blob"

text \<open>
  What a multi-piece run submits for piece \<open>i\<close>: the bytes of the piece, behind the
  header bytes of the payload for every piece but the first.
\<close>

definition piece_blob :: "Blob \<Rightarrow> nat \<Rightarrow> Blob" where
  "piece_blob blob i =
     (if i = 0 then chunk_blob blob i
      else blob_concat [blob_slice 0 HEADER_SIZE_BYTES (blob_type blob) blob, chunk_blob blob i]
             (blob_type blob))"

text \<open>
  The outcomes of the calls of transcribeAudio for the pieces of the given indices, made
  one after the other from the given log of requests, and the log after the last call.
\<close>

fun piece_outcomes ::
  "remote \<Rightarrow> Blob \<Rightarrow> string \<Rightarrow> nat list \<Rightarrow> request list \<Rightarrow> (thrown + string) list \<times> request list" where
  "piece_outcomes remote blob prompt [] calls = ([], calls)"
| "piece_outcomes remote blob prompt (i # rest) calls =
     (let result = transcribeAudio remote (piece_blob blob i) (before_semicolon (blob_type blob))
                     prompt calls;
          others = piece_outcomes remote blob prompt rest (snd result)
      in (fst result # fst others, snd others))"

text \<open>
  The piece that the claim expects for an outcome: completed with the trimmed transcript,
  or failed with the message of the error.
\<close>

definition piece_result :: "nat \<Rightarrow> thrown + string \<Rightarrow> TranscriptChunk" where
  "piece_result i outcome =
     (case outcome of
        Inr transcriptPart \<Rightarrow>
          \<lparr>tc_index = i, tc_content = trim transcriptPart, tc_status = ChunkCompleted\<rparr>
      | Inl chunkError \<Rightarrow>
          \<lparr>tc_index = i, tc_content = message_or_string chunkError, tc_status = ChunkFailed\<rparr>)"

definition succeeded :: "thrown + string \<Rightarrow> bool" where
  "succeeded outcome = (case outcome of Inr transcriptPart \<Rightarrow> True | Inl chunkError \<Rightarrow> False)"

section \<open>Example data\<close>

text \<open>A small recording in an opened store, for the concrete instances of the theorems below.\<close>

definition example_blob :: Blob where
  "example_blob = \<lparr>blob_bytes = [26, 69, 223, 163], blob_type = ''audio/webm;codecs=opus''\<rparr>"

definition example_recording :: Recording where
  "example_recording =
     \<lparr>rec_id = 7, rec_name = ''standup'', rec_size = 4, rec_mimeType = ''audio/webm;codecs=opus'',
      rec_status = New, rec_progress = 0, rec_transcriptChunks = [], rec_formattedNotes = None,
      rec_blob = example_blob\<rparr>"

definition example_db :: Database where
  "example_db = \<lparr>db_opened = True, db_recordings = [7 \<mapsto> example_recording]\<rparr>"

definition example_state :: "Database \<Rightarrow> App" where
  "example_state db =
     \<lparr>st_db = db, st_calls = [], st_isTranscribing = False, st_isGenerating = False,
      st_transcriptChunks = [], st_instruction = ''Summarise the meeting.'',
      st_transcriptionPrompt = ''Transcribe the audio.'', st_generatedNotes = [],
      st_error = None, st_recordedAudioBlob = None, st_activeRecordingId = None,
      st_vocabulary = [], st_selectedModel = ''gemini-2.5-flash'',
      st_noteUpdateTimeout = None\<rparr>"

definition example_done_recording :: Recording where
  "example_done_recording =
     example_recording\<lparr>rec_status := Completed, rec_progress := 100,
       rec_transcriptChunks :=
         [\<lparr>tc_index = 0, tc_content = ''hello team'', tc_status = ChunkCompleted\<rparr>]\<rparr>"

definition example_done_db :: Database where
  "example_done_db = \<lparr>db_opened = True, db_recordings = [7 \<mapsto> example_done_recording]\<rparr>"

text \<open>
  A recording of 50 000 000 bytes, which the plan cuts into five pieces, and a remote
  service that rejects the third request it receives and answers every other one.
\<close>

definition example_long_blob :: Blob where
  "example_long_blob = \<lparr>blob_bytes = replicate 50000000 0, blob_type = ''audio/webm''\<rparr>"

definition example_long_recording :: Recording where
  "example_long_recording =
     \<lparr>rec_id = 8, rec_name = ''planning'', rec_size = 50000000, rec_mimeType = ''audio/webm'',
      rec_status = New, rec_progress = 0, rec_transcriptChunks = [], rec_formattedNotes = None,
      rec_blob = example_long_blob\<rparr>"

definition example_long_db :: Database where
  "example_long_db = \<lparr>db_opened = True, db_recordings = [8 \<mapsto> example_long_recording]\<rparr>"

definition example_remote :: remote where
  "example_remote calls req =
     (if length calls = 2 then Rejected 250 (Error ''quota exceeded'')
      else Fulfilled 900 (Some '' hello ''))"

section \<open>Properties of the piece plan\<close>

lemma piece_plan_single:
  "size' \<le> MAX_CHUNK_SIZE_BYTES \<Longrightarrow> piece_plan size' = [(0, size')]"
  by (simp add: piece_plan_def)

lemma piece_plan_length:
  "MAX_CHUNK_SIZE_BYTES < size' \<Longrightarrow> length (piece_plan size') = totalChunks size'"
  by (simp add: piece_plan_def)

lemma ceil_div_gt:
  assumes "0 < b" and "i < ceil_div a b"
  shows "i * b < a"
proof -
  from assms(2) have "Suc i \<le> (a + b - 1) div b"
    by (simp add: ceil_div_def)
  with assms(1) have "Suc i * b \<le> a + b - 1"
    by (simp add: less_eq_div_iff_mult_less_eq)
  with assms(1) show ?thesis by simp
qed

lemma chunk_start_in_payload:
  assumes "MAX_CHUNK_SIZE_BYTES < size'" and "i < totalChunks size'"
  shows "chunk_start i < size'"
proof -
  have "0 < MAX_CHUNK_SIZE_BYTES - HEADER_SIZE_BYTES"
    by (simp add: MAX_CHUNK_SIZE_BYTES_def HEADER_SIZE_BYTES_def)
  with assms(2) have "i * (MAX_CHUNK_SIZE_BYTES - HEADER_SIZE_BYTES) < size' - HEADER_SIZE_BYTES"
    unfolding totalChunks_def by (intro ceil_div_gt)
  then show ?thesis by (simp add: chunk_start_def)
qed

lemma totalChunks_ge_2:
  assumes "MAX_CHUNK_SIZE_BYTES < size'"
  shows "2 \<le> totalChunks size'"
proof -
  let ?step = "MAX_CHUNK_SIZE_BYTES - HEADER_SIZE_BYTES"
  have pos: "0 < ?step" and h: "HEADER_SIZE_BYTES < MAX_CHUNK_SIZE_BYTES"
    by (simp_all add: MAX_CHUNK_SIZE_BYTES_def HEADER_SIZE_BYTES_def)
  from assms h have "2 * ?step \<le> size' - HEADER_SIZE_BYTES + ?step - 1"
    by simp
  then have "(2 * ?step) div ?step \<le> (size' - HEADER_SIZE_BYTES + ?step - 1) div ?step"
    by (rule div_le_mono)
  with pos show ?thesis
    by (simp add: totalChunks_def ceil_div_def)
qed

text \<open>
  Above the maximal size the plan starts at byte 0 and every piece but the last ends where
  the next one starts, so the pieces are in order and do not overlap.
\<close>

lemma piece_plan_consecutive:
  assumes "MAX_CHUNK_SIZE_BYTES < size'" and "Suc i < totalChunks size'"
  shows "chunk_end size' i = chunk_start (Suc i)"
proof -
  from assms have "chunk_start (Suc i) < size'"
    by (rule chunk_start_in_payload)
  then show ?thesis
    by (simp add: chunk_end_def chunk_start_def)
qed

lemma piece_plan_first: "chunk_start 0 = 0"
  by (simp add: chunk_start_def)

text \<open>
  C1. The claim: above the maximal piece size the ranges of the plan cover the whole
  payload \<open>[0, totalSize)\<close>. The code's piece count is computed from
  \<open>totalSize - HEADER_SIZE\<close>, while every piece, the first one too, advances by
  \<open>MAX - HEADER\<close> bytes: for a payload of \<open>2 * (MAX - HEADER) + 1 = 20951041\<close> bytes the
  plan has two pieces that end at byte 20951040, and the last byte of the payload is in
  no piece.
\<close>

theorem C1_plan_drops_last_byte:
  "piece_plan 20951041 = [(0, 10475520), (10475520, 20951040)]"
  by (simp add: piece_plan_def totalChunks_def ceil_div_def chunk_start_def chunk_end_def
      MAX_CHUNK_SIZE_BYTES_def HEADER_SIZE_BYTES_def upt_rec)

section \<open>Properties of the recording store\<close>

lemma updateRecording_missing:
  "db_recordings db k = None \<Longrightarrow> \<exists>e. updateRecording k updates db = (Inl e, db)"
  by (simp add: updateRecording_def)

lemma merge_eq:
  "merge data updates = data\<lparr>
      rec_name := (case u_name updates of None \<Rightarrow> rec_name data | Some v \<Rightarrow> v),
      rec_size := (case u_size updates of None \<Rightarrow> rec_size data | Some v \<Rightarrow> v),
      rec_mimeType := (case u_mimeType updates of None \<Rightarrow> rec_mimeType data | Some v \<Rightarrow> v),
      rec_status := (case u_status updates of None \<Rightarrow> rec_status data | Some v \<Rightarrow> v),
      rec_progress := (case u_progress updates of None \<Rightarrow> rec_progress data | Some v \<Rightarrow> v),
      rec_transcriptChunks :=
        (case u_transcriptChunks updates of None \<Rightarrow> rec_transcriptChunks data | Some v \<Rightarrow> v),
      rec_formattedNotes :=
        (case u_formattedNotes updates of None \<Rightarrow> rec_formattedNotes data | Some v \<Rightarrow> Some v),
      rec_blob := (case u_blob updates of None \<Rightarrow> rec_blob data | Some v \<Rightarrow> v)\<rparr>"
  by (cases data) (simp add: merge_def split: option.splits)

lemma updateRecording_stored:
  "db_opened db \<Longrightarrow> db_recordings db k = Some data \<Longrightarrow> rec_id data = k \<Longrightarrow>
   updateRecording k updates db =
     (Inr (), db\<lparr>db_recordings := (db_recordings db)(k \<mapsto> merge data updates)\<rparr>)"
  by (simp add: updateRecording_def merge_def)

text \<open>
  C10. updateRecording on a stored record keeps the \<open>id\<close> and every field that the
  partial update does not list, the binary payload among them, replaces every field
  that it lists, and leaves the other records of the store alone. When no record has the
  given id the call is rejected and the store is unchanged.
\<close>

theorem C10_updateRecording_merge:
  "(db_recordings db k = None \<longrightarrow> (\<exists>e. updateRecording k updates db = (Inl e, db))) \<and>
   (db_opened db \<and> db_recordings db k = Some data \<and> rec_id data = k \<longrightarrow>
     (\<exists>r. updateRecording k updates db = (Inr (), db\<lparr>db_recordings := (db_recordings db)(k \<mapsto> r)\<rparr>)
        \<and> rec_id r = rec_id data
        \<and> (u_name updates = None \<longrightarrow> rec_name r = rec_name data)
        \<and> (u_size updates = None \<longrightarrow> rec_size r = rec_size data)
        \<and> (u_mimeType updates = None \<longrightarrow> rec_mimeType r = rec_mimeType data)
        \<and> (u_status updates = None \<longrightarrow> rec_status r = rec_status data)
        \<and> (u_progress updates = None \<longrightarrow> rec_progress r = rec_progress data)
        \<and> (u_transcriptChunks updates = None \<longrightarrow> rec_transcriptChunks r = rec_transcriptChunks data)
        \<and> (u_formattedNotes updates = None \<longrightarrow> rec_formattedNotes r = rec_formattedNotes data)
        \<and> (u_blob updates = None \<longrightarrow> rec_blob r = rec_blob data)
        \<and> (\<forall>v. u_name updates = Some v \<longrightarrow> rec_name r = v)
        \<and> (\<forall>v. u_size updates = Some v \<longrightarrow> rec_size r = v)
        \<and> (\<forall>v. u_mimeType updates = Some v \<longrightarrow> rec_mimeType r = v)
        \<and> (\<forall>v. u_status updates = Some v \<longrightarrow> rec_status r = v)
        \<and> (\<forall>v. u_progress updates = Some v \<longrightarrow> rec_progress r = v)
        \<and> (\<forall>v. u_transcriptChunks updates = Some v \<longrightarrow> rec_transcriptChunks r = v)
        \<and> (\<forall>v. u_formattedNotes updates = Some v \<longrightarrow> rec_formattedNotes r = Some v)
        \<and> (\<forall>v. u_blob updates = Some v \<longrightarrow> rec_blob r = v)))"
proof (intro conjI impI)
  assume "db_recordings db k = None"
  then show "\<exists>e. updateRecording k updates db = (Inl e, db)"
    by (rule updateRecording_missing)
next
  assume a: "db_opened db \<and> db_recordings db k = Some data \<and> rec_id data = k"
  then have "updateRecording k updates db =
      (Inr (), db\<lparr>db_recordings := (db_recordings db)(k \<mapsto> merge data updates)\<rparr>)"
    by (simp add: updateRecording_stored)
  then show "\<exists>r. updateRecording k updates db = (Inr (), db\<lparr>db_recordings := (db_recordings db)(k \<mapsto> r)\<rparr>)
        \<and> rec_id r = rec_id data
        \<and> (u_name updates = None \<longrightarrow> rec_name r = rec_name data)
        \<and> (u_size updates = None \<longrightarrow> rec_size r = rec_size data)
        \<and> (u_mimeType updates = None \<longrightarrow> rec_mimeType r = rec_mimeType data)
        \<and> (u_status updates = None \<longrightarrow> rec_status r = rec_status data)
        \<and> (u_progress updates = None \<longrightarrow> rec_progress r = rec_progress data)
        \<and> (u_transcriptChunks updates = None \<longrightarrow> rec_transcriptChunks r = rec_transcriptChunks data)
        \<and> (u_formattedNotes updates = None \<longrightarrow> rec_formattedNotes r = rec_formattedNotes data)
        \<and> (u_blob updates = None \<longrightarrow> rec_blob r = rec_blob data)
        \<and> (\<forall>v. u_name updates = Some v \<longrightarrow> rec_name r = v)
        \<and> (\<forall>v. u_size updates = Some v \<longrightarrow> rec_size r = v)
        \<and> (\<forall>v. u_mimeType updates = Some v \<longrightarrow> rec_mimeType r = v)
        \<and> (\<forall>v. u_status updates = Some v \<longrightarrow> rec_status r = v)
        \<and> (\<forall>v. u_progress updates = Some v \<longrightarrow> rec_progress r = v)
        \<and> (\<forall>v. u_transcriptChunks updates = Some v \<longrightarrow> rec_transcriptChunks r = v)
        \<and> (\<forall>v. u_formattedNotes updates = Some v \<longrightarrow> rec_formattedNotes r = Some v)
        \<and> (\<forall>v. u_blob updates = Some v \<longrightarrow> rec_blob r = v)"
    by (intro exI[of _ "merge data updates"]) (simp add: merge_def)
qed

theorem C10_witness:
  "updateRecording 7 (no_updates\<lparr>u_status := Some Failed, u_progress := Some 100\<rparr>) example_db =
     (Inr (), example_db\<lparr>db_recordings :=
        [7 \<mapsto> example_recording\<lparr>rec_status := Failed, rec_progress := 100\<rparr>]\<rparr>)
   \<and> updateRecording 8 (no_updates\<lparr>u_status := Some Failed, u_progress := Some 100\<rparr>) example_db =
     (Inl (NonError ''Recording not found for update.''), example_db)"
proof -
  let ?u = "no_updates\<lparr>u_status := Some Failed, u_progress := Some 100\<rparr>"
  have stored: "db_opened example_db \<and> db_recordings example_db 7 = Some example_recording
      \<and> rec_id example_recording = 7"
    by (simp add: example_db_def example_recording_def)
  have missing: "db_recordings example_db 8 = None"
    by (simp add: example_db_def)
  from C10_updateRecording_merge [of example_db 7 ?u example_recording] stored
  obtain r where r: "updateRecording 7 ?u example_db =
        (Inr (), example_db\<lparr>db_recordings := (db_recordings example_db)(7 \<mapsto> r)\<rparr>)"
    and "rec_id r = rec_id example_recording" 
    and "rec_name r = rec_name example_recording" 
    and "rec_size r = rec_size example_recording"
    and "rec_mimeType r = rec_mimeType example_recording" 
    and "rec_status r = Failed" and "rec_progress r = 100"
    and "rec_transcriptChunks r = rec_transcriptChunks example_recording"
    and "rec_formattedNotes r = rec_formattedNotes example_recording"
    and "rec_blob r = rec_blob example_recording"
    by (auto simp add: no_updates_def)
  then have "r = example_recording\<lparr>rec_status := Failed, rec_progress := 100\<rparr>"
    by (cases r) (simp add: example_recording_def)
  with r have one: "updateRecording 7 ?u example_db =
     (Inr (), example_db\<lparr>db_recordings :=
        [7 \<mapsto> example_recording\<lparr>rec_status := Failed, rec_progress := 100\<rparr>]\<rparr>)"
    by (simp add: example_db_def)
  from C10_updateRecording_merge [of example_db 8 ?u example_recording] missing
  obtain e where "updateRecording 8 ?u example_db = (Inl e, example_db)"
    by auto
  then have two: "updateRecording 8 ?u example_db =
     (Inl (NonError ''Recording not found for update.''), example_db)"
    by (simp add: updateRecording_def example_db_def)
  from one two show ?thesis by simp
qed

section \<open>Properties of the pipeline and of the notes stage\<close>

text \<open>
  C3. For a recording that is stored as completed with at least one piece,
  processRecording makes no remote request and leaves the store as it is; the pieces it
  shows are the stored ones.
\<close>

theorem C3_completed_short_circuit:
  assumes "db_opened (st_db s)"
    and "db_recordings (st_db s) k = Some recording"
    and "rec_status recording = Completed"
    and "rec_transcriptChunks recording \<noteq> []"
  shows "fst (processRecording remote k s) = Inr ()
     \<and> st_calls (snd (processRecording remote k s)) = st_calls s
     \<and> st_db (snd (processRecording remote k s)) = st_db s
     \<and> st_transcriptChunks (snd (processRecording remote k s)) = rec_transcriptChunks recording"
  using assms
  by (simp add: processRecording_def getRecording_def process_loaded_def process_finally_def)

theorem C3_witness:
  "fst (processRecording (\<lambda>calls req. Fulfilled 1 (Some ''again'')) 7 (example_state example_done_db)) = Inr ()
   \<and> st_calls (snd (processRecording (\<lambda>calls req. Fulfilled 1 (Some ''again'')) 7
        (example_state example_done_db))) = []
   \<and> st_db (snd (processRecording (\<lambda>calls req. Fulfilled 1 (Some ''again'')) 7
        (example_state example_done_db))) = example_done_db
   \<and> st_transcriptChunks (snd (processRecording (\<lambda>calls req. Fulfilled 1 (Some ''again'')) 7
        (example_state example_done_db))) =
       [\<lparr>tc_index = 0, tc_content = ''hello team'', tc_status = ChunkCompleted\<rparr>]"
  using C3_completed_short_circuit [of "example_state example_done_db" 7 example_done_recording
      "\<lambda>calls req. Fulfilled 1 (Some ''again'')"]
  by (simp add: example_state_def example_done_db_def example_done_recording_def)

lemma dropWhile_all_iff:
  "(\<forall>x\<in>set (dropWhile P s). P x) \<longleftrightarrow> dropWhile P s = []"
proof
  assume all: "\<forall>x\<in>set (dropWhile P s). P x"
  show "dropWhile P s = []"
  proof (rule ccontr)
    assume ne: "dropWhile P s \<noteq> []"
    then have "\<not> P (hd (dropWhile P s))" by (rule hd_dropWhile)
    moreover have "hd (dropWhile P s) \<in> set (dropWhile P s)" using ne by simp
    ultimately show False using all by blast
  qed
next
  assume "dropWhile P s = []"
  then show "\<forall>x\<in>set (dropWhile P s). P x" by (auto dest: set_dropWhileD)
qed

lemma trim_Nil_iff: "trim s = [] \<longleftrightarrow> list_all is_ws s"
  by (simp add: trim_def dropWhile_all_iff list_all_iff)

text \<open>
  C6. formatNotes rejects a transcript or an instruction that is empty or white space
  only with an error, before any request is made. Otherwise it makes one request and
  returns a text: the text of the response when the request succeeds in time, and a
  description of the error when the request is rejected or the timer of 120 seconds
  fires first.
\<close>

theorem C6_formatNotes:
  assumes "format = \<lparr>req_model = model,
             req_contents = TextPrompt (notes_prompt customInstruction transcription)\<rparr>"
  shows
  "(list_all is_ws transcription \<or> list_all is_ws customInstruction \<longrightarrow>
      (\<exists>m. formatNotes remote transcription customInstruction model calls = (Inl (Error m), calls)))
   \<and> (\<not> list_all is_ws transcription \<and> \<not> list_all is_ws customInstruction \<longrightarrow>
      (\<exists>text. formatNotes remote transcription customInstruction model calls
                 = (Inr text, calls @ [format])
         \<and> (\<forall>t v. remote calls format = Fulfilled t v \<and> t < 120000 \<longrightarrow> text = text_or_empty v)
         \<and> (\<forall>t m. remote calls format = Rejected t (Error m) \<and> t < 120000 \<longrightarrow>
               text = ''Error formatting notes: '' @ m
                        @ ''. Please check the console for more details.'')
         \<and> (\<forall>t v. remote calls format = Rejected t (NonError v) \<and> t < 120000 \<longrightarrow>
               text = ''An unknown error occurred while formatting notes.'')
         \<and> (timer_first (remote calls format) 120000 \<longrightarrow>
               text = ''Error formatting notes: Formatting notes request timed out after 120 seconds.. Please check the console for more details.'')))"
proof (intro conjI impI)
  assume "list_all is_ws transcription \<or> list_all is_ws customInstruction"
  then show "\<exists>m. formatNotes remote transcription customInstruction model calls = (Inl (Error m), calls)"
    by (auto simp add: formatNotes_def trim_Nil_iff)
next
  assume "\<not> list_all is_ws transcription \<and> \<not> list_all is_ws customInstruction"
  then have ne: "trim transcription \<noteq> []" "trim customInstruction \<noteq> []"
    by (simp_all add: trim_Nil_iff)
  show "\<exists>text. formatNotes remote transcription customInstruction model calls
                 = (Inr text, calls @ [format])
         \<and> (\<forall>t v. remote calls format = Fulfilled t v \<and> t < 120000 \<longrightarrow> text = text_or_empty v)
         \<and> (\<forall>t m. remote calls format = Rejected t (Error m) \<and> t < 120000 \<longrightarrow>
               text = ''Error formatting notes: '' @ m
                        @ ''. Please check the console for more details.'')
         \<and> (\<forall>t v. remote calls format = Rejected t (NonError v) \<and> t < 120000 \<longrightarrow>
               text = ''An unknown error occurred while formatting notes.'')
         \<and> (timer_first (remote calls format) 120000 \<longrightarrow>
               text = ''Error formatting notes: Formatting notes request timed out after 120 seconds.. Please check the console for more details.'')"
  proof (cases "remote calls format")
    case (Fulfilled t v)
    then show ?thesis using ne assms
      by (simp add: formatNotes_def withTimeout_def timer_first_def Let_def)
  next
    case (Rejected t e)
    then show ?thesis using ne assms
      by (cases e) (simp_all add: formatNotes_def withTimeout_def timer_first_def Let_def)
  next
    case Pending
    then show ?thesis using ne assms
      by (simp add: formatNotes_def withTimeout_def timer_first_def Let_def)
  qed
qed

theorem C6_witness:
  "formatNotes (\<lambda>calls req. Fulfilled 900 (Some ''# Notes'')) [CHR 0x20, CHR 0x0A] ''Summarise''
      ''gemini-2.5-flash'' [] = (Inl (Error ''Transcription is empty.''), [])
   \<and> formatNotes (\<lambda>calls req. Fulfilled 900 (Some ''# Notes'')) ''hello team'' ''Summarise''
      ''gemini-2.5-flash'' [] =
       (Inr ''# Notes'',
        [\<lparr>req_model = ''gemini-2.5-flash'',
          req_contents = TextPrompt (notes_prompt ''Summarise'' ''hello team'')\<rparr>])
   \<and> fst (formatNotes (\<lambda>calls req. Rejected 40 (Error ''quota exceeded'')) ''hello team'' ''Summarise''
      ''gemini-2.5-flash'' []) =
       Inr ''Error formatting notes: quota exceeded. Please check the console for more details.''"
proof -
  have ws: "list_all is_ws [CHR 0x20, CHR 0x0A]" and nws: "\<not> list_all is_ws ''hello team''"
    "\<not> list_all is_ws ''Summarise''"
    by (simp_all add: is_ws_def)
  from C6_formatNotes [OF refl, of "[CHR 0x20, CHR 0x0A]" "''Summarise''"
      "\<lambda>calls req. Fulfilled 900 (Some ''# Notes'')" "''gemini-2.5-flash''" "[]"] ws
  obtain m where "formatNotes (\<lambda>calls req. Fulfilled 900 (Some ''# Notes'')) [CHR 0x20, CHR 0x0A]
      ''Summarise'' ''gemini-2.5-flash'' [] = (Inl (Error m), [])"
    by blast
  then have one: "formatNotes (\<lambda>calls req. Fulfilled 900 (Some ''# Notes'')) [CHR 0x20, CHR 0x0A]
      ''Summarise'' ''gemini-2.5-flash'' [] = (Inl (Error ''Transcription is empty.''), [])"
    by (simp add: formatNotes_def trim_def is_ws_def)
  from C6_formatNotes [OF refl, of "''hello team''" "''Summarise''"
      "\<lambda>calls req. Fulfilled 900 (Some ''# Notes'')" "''gemini-2.5-flash''" "[]"] nws
  have two: "formatNotes (\<lambda>calls req. Fulfilled 900 (Some ''# Notes'')) ''hello team'' ''Summarise''
      ''gemini-2.5-flash'' [] =
       (Inr ''# Notes'',
        [\<lparr>req_model = ''gemini-2.5-flash'',
          req_contents = TextPrompt (notes_prompt ''Summarise'' ''hello team'')\<rparr>])"
    by (auto simp add: text_or_empty_def)
  from C6_formatNotes [OF refl, of "''hello team''" "''Summarise''"
      "\<lambda>calls req. Rejected 40 (Error ''quota exceeded'')" "''gemini-2.5-flash''" "[]"] nws
  have three: "fst (formatNotes (\<lambda>calls req. Rejected 40 (Error ''quota exceeded'')) ''hello team''
      ''Summarise'' ''gemini-2.5-flash'' []) =
       Inr ''Error formatting notes: quota exceeded. Please check the console for more details.''"
    by auto
  from one two three show ?thesis by simp
qed

lemma withTimeout_timer_first:
  "timer_first promise ms \<Longrightarrow> withTimeout promise ms msg = Inl (Error msg)"
  by (cases promise) (simp_all add: timer_first_def withTimeout_def)

text \<open>
  C4, as amended. A first attempt that is still unsettled after 60 seconds is followed by
  exactly one request to the stronger model with a bound of 120 seconds, and when that
  bound passes too the timeout error of the retry is thrown. What sends the call to the
  stronger model is the text of the error: an \<^verbatim>\<open>Error\<close> whose message contains
  \<^verbatim>\<open>timed out\<close>. So an early rejection without these words in its message is thrown
  again (under the prefix of transcribeAudio) with no second request, and an early
  rejection by the service that has these words in its message is retried as well.
\<close>

theorem C4_escalation_by_message:
  assumes "attempt = transcription_request ''gemini-flash-lite-latest'' audioBlob mimeType prompt"
    and "retry = transcription_request ''gemini-2.5-pro'' audioBlob mimeType prompt"
  shows
  "(timer_first (remote calls attempt) 60000 \<longrightarrow>
      snd (transcribeAudio remote audioBlob mimeType prompt calls) = calls @ [attempt, retry]
      \<and> (timer_first (remote (calls @ [attempt]) retry) 120000 \<longrightarrow>
            fst (transcribeAudio remote audioBlob mimeType prompt calls) =
              Inl (Error ''Error transcribing audio: Transcription retry request timed out after 120 seconds.''))
      \<and> (\<forall>t v. remote (calls @ [attempt]) retry = Fulfilled t v \<and> t < 120000 \<longrightarrow>
            fst (transcribeAudio remote audioBlob mimeType prompt calls) = Inr (text_or_empty v)))
   \<and> (\<forall>t m. remote calls attempt = Rejected t (Error m) \<and> t < 60000
          \<and> \<not> includes_str m ''timed out'' \<longrightarrow>
        transcribeAudio remote audioBlob mimeType prompt calls =
          (Inl (Error (''Error transcribing audio: '' @ m)), calls @ [attempt]))
   \<and> (\<forall>t v. remote calls attempt = Rejected t (NonError v) \<and> t < 60000 \<longrightarrow>
        transcribeAudio remote audioBlob mimeType prompt calls =
          (Inl (Error ''An unknown error occurred during transcription.''), calls @ [attempt]))
   \<and> (\<forall>t m. remote calls attempt = Rejected t (Error m) \<and> t < 60000
          \<and> includes_str m ''timed out'' \<longrightarrow>
        snd (transcribeAudio remote audioBlob mimeType prompt calls) = calls @ [attempt, retry])"
proof -
  have a: "timer_first (remote calls attempt) 60000 \<longrightarrow>
      snd (transcribeAudio remote audioBlob mimeType prompt calls) = calls @ [attempt, retry]
      \<and> (timer_first (remote (calls @ [attempt]) retry) 120000 \<longrightarrow>
            fst (transcribeAudio remote audioBlob mimeType prompt calls) =
              Inl (Error ''Error transcribing audio: Transcription retry request timed out after 120 seconds.''))
      \<and> (\<forall>t v. remote (calls @ [attempt]) retry = Fulfilled t v \<and> t < 120000 \<longrightarrow>
            fst (transcribeAudio remote audioBlob mimeType prompt calls) = Inr (text_or_empty v))"
  proof
    assume "timer_first (remote calls attempt) 60000"
    then have w: "withTimeout (remote calls attempt) 60000
        ''Transcription request timed out after 60 seconds.'' =
        Inl (Error ''Transcription request timed out after 60 seconds.'')"
      by (rule withTimeout_timer_first)
    show "snd (transcribeAudio remote audioBlob mimeType prompt calls) = calls @ [attempt, retry]
      \<and> (timer_first (remote (calls @ [attempt]) retry) 120000 \<longrightarrow>
            fst (transcribeAudio remote audioBlob mimeType prompt calls) =
              Inl (Error ''Error transcribing audio: Transcription retry request timed out after 120 seconds.''))
      \<and> (\<forall>t v. remote (calls @ [attempt]) retry = Fulfilled t v \<and> t < 120000 \<longrightarrow>
            fst (transcribeAudio remote audioBlob mimeType prompt calls) = Inr (text_or_empty v))"
    proof (cases "remote (calls @ [attempt]) retry")
      case (Fulfilled t v)
      then show ?thesis
        unfolding transcribeAudio_def Let_def assms [symmetric] w
        by (simp add: withTimeout_def timer_first_def)
    next
      case (Rejected t e)
      then show ?thesis
        unfolding transcribeAudio_def Let_def assms [symmetric] w
        by (simp add: withTimeout_def timer_first_def)
    next
      case Pending
      then show ?thesis
        unfolding transcribeAudio_def Let_def assms [symmetric] w
        by (simp add: withTimeout_def timer_first_def)
    qed
  qed
  have b: "\<forall>t m. remote calls attempt = Rejected t (Error m) \<and> t < 60000
          \<and> \<not> includes_str m ''timed out'' \<longrightarrow>
        transcribeAudio remote audioBlob mimeType prompt calls =
          (Inl (Error (''Error transcribing audio: '' @ m)), calls @ [attempt])"
    unfolding transcribeAudio_def Let_def assms [symmetric]
    by (simp add: withTimeout_def)
  have c: "\<forall>t v. remote calls attempt = Rejected t (NonError v) \<and> t < 60000 \<longrightarrow>
        transcribeAudio remote audioBlob mimeType prompt calls =
          (Inl (Error ''An unknown error occurred during transcription.''), calls @ [attempt])"
    unfolding transcribeAudio_def Let_def assms [symmetric]
    by (simp add: withTimeout_def)
  have d: "\<forall>t m. remote calls attempt = Rejected t (Error m) \<and> t < 60000
          \<and> includes_str m ''timed out'' \<longrightarrow>
        snd (transcribeAudio remote audioBlob mimeType prompt calls) = calls @ [attempt, retry]"
    unfolding transcribeAudio_def Let_def assms [symmetric]
    by (auto simp add: withTimeout_def split: sum.splits)
  from a b c d show ?thesis by blast
qed

theorem C4_witness:
  "transcribeAudio (\<lambda>calls req. Pending) example_blob ''audio/webm'' ''Transcribe the audio.'' [] =
     (Inl (Error ''Error transcribing audio: Transcription retry request timed out after 120 seconds.''),
      [transcription_request ''gemini-flash-lite-latest'' example_blob ''audio/webm'' ''Transcribe the audio.'',
       transcription_request ''gemini-2.5-pro'' example_blob ''audio/webm'' ''Transcribe the audio.''])
   \<and> transcribeAudio (\<lambda>calls req. Rejected 250 (Error ''quota exceeded'')) example_blob ''audio/webm''
        ''Transcribe the audio.'' [] =
     (Inl (Error ''Error transcribing audio: quota exceeded''),
      [transcription_request ''gemini-flash-lite-latest'' example_blob ''audio/webm'' ''Transcribe the audio.''])"
proof -
  have t1: "timer_first Pending 60000" and t2: "timer_first Pending 120000"
    by (simp_all add: timer_first_def)
  have nt: "\<not> includes_str ''quota exceeded'' ''timed out''"
    by simp
  from C4_escalation_by_message [OF refl refl, of "\<lambda>calls req. Pending" "[]" example_blob
      "''audio/webm''" "''Transcribe the audio.''"] t1 t2
  have one: "transcribeAudio (\<lambda>calls req. Pending) example_blob ''audio/webm'' ''Transcribe the audio.'' [] =
     (Inl (Error ''Error transcribing audio: Transcription retry request timed out after 120 seconds.''),
      [transcription_request ''gemini-flash-lite-latest'' example_blob ''audio/webm'' ''Transcribe the audio.'',
       transcription_request ''gemini-2.5-pro'' example_blob ''audio/webm'' ''Transcribe the audio.''])"
    by (simp add: prod_eq_iff)
  from C4_escalation_by_message [OF refl refl,
      of "\<lambda>calls req. Rejected 250 (Error ''quota exceeded'')" "[]" example_blob
      "''audio/webm''" "''Transcribe the audio.''"] nt
  have two: "transcribeAudio (\<lambda>calls req. Rejected 250 (Error ''quota exceeded'')) example_blob ''audio/webm''
        ''Transcribe the audio.'' [] =
     (Inl (Error ''Error transcribing audio: quota exceeded''),
      [transcription_request ''gemini-flash-lite-latest'' example_blob ''audio/webm'' ''Transcribe the audio.''])"
    by simp
  from one two show ?thesis by simp
qed

text \<open>
  The claim as it stands fails: the service rejects the first attempt after 10
  milliseconds, long before the bound of 60 seconds, with a message that contains
  \<^verbatim>\<open>timed out\<close>, and transcribeAudio sends a second request to the stronger model.
\<close>

theorem C4_counterexample:
  "withTimeout (Rejected 10 (Error ''upstream request timed out'')) 60000
       ''Transcription request timed out after 60 seconds.'' =
     Inl (Error ''upstream request timed out'')
   \<and> snd (transcribeAudio (\<lambda>calls req. Rejected 10 (Error ''upstream request timed out''))
        example_blob ''audio/webm'' ''Transcribe the audio.'' []) =
     [transcription_request ''gemini-flash-lite-latest'' example_blob ''audio/webm'' ''Transcribe the audio.'',
      transcription_request ''gemini-2.5-pro'' example_blob ''audio/webm'' ''Transcribe the audio.'']"
  by (simp add: transcribeAudio_def withTimeout_def)

section \<open>Properties of the text substitution and of the vocabulary\<close>

lemma regexp_literal_plain:
  "\<not> regex_special c \<Longrightarrow> regexp_literal (c # xs) = map_option ((#) c) (regexp_literal xs)"
  by (cases xs) (auto simp add: regex_special_def)

text \<open>
  The pattern that escapeRegExp builds always compiles, and it matches the old text
  literally, whatever syntax characters the old text contains.
\<close>

lemma regexp_literal_escapeRegExp: "regexp_literal (escapeRegExp s) = Some s"
proof (induction s)
  case Nil
  then show ?case by (simp add: escapeRegExp_def)
next
  case (Cons c cs)
  have step: "escapeRegExp (c # cs) =
      (if regex_special c then CHR 0x5C # c # escapeRegExp cs else c # escapeRegExp cs)"
    by (simp add: escapeRegExp_def)
  show ?case
  proof (cases "regex_special c")
    case True
    with Cons.IH step show ?thesis
      by simp
  next
    case False
    with Cons.IH step show ?thesis
      by (simp add: regexp_literal_plain del: regexp_literal.simps)
  qed
qed

lemma replace_all_occurrences_literal:
  "replace_all_occurrences oldText newText content' = Inr (replace_matches oldText newText [] content')"
  by (simp add: replace_all_occurrences_def regexp_literal_escapeRegExp)

lemma expand_replacement_plain:
  "CHR ''$'' \<notin> set replacement \<Longrightarrow> expand_replacement matched passed ahead replacement = replacement"
  by (induction matched passed ahead replacement rule: expand_replacement.induct) auto

lemma map_throwing_total:
  "(\<And>x. f x = Inr (g x)) \<Longrightarrow> map_throwing f xs = Inr (map g xs)"
  by (induction xs) simp_all

lemma edit_chunk_total:
  "edit_chunk oldText newText replaceAll chunkIndex start end' ic =
     Inr ((snd ic)\<lparr>tc_content :=
        (if replaceAll then replace_matches oldText newText [] (tc_content (snd ic))
         else if fst ic = chunkIndex then replace_range start end' newText (tc_content (snd ic))
         else tc_content (snd ic))\<rparr>)"
  by (simp add: edit_chunk_def Let_def replace_all_occurrences_literal)

lemma handleEditAndUpdateVocabulary_vocabulary:
  "trim newText \<noteq> [] \<Longrightarrow>
   st_vocabulary (snd (handleEditAndUpdateVocabulary now oldText newText replaceAll True
       chunkIndex start end' s)) = add_correction now oldText newText (st_vocabulary s)"
  by (simp add: handleEditAndUpdateVocabulary_def map_throwing_total [OF edit_chunk_total] Let_def
      split: option.splits prod.splits sum.splits)

lemma handleNoteEditAndUpdateVocabulary_vocabulary:
  "trim newText \<noteq> [] \<Longrightarrow>
   st_vocabulary (snd (handleNoteEditAndUpdateVocabulary now oldText newText replaceAll True
       start end' s)) = add_correction now oldText newText (st_vocabulary s)"
  by (simp add: handleNoteEditAndUpdateVocabulary_def replace_all_occurrences_literal
      handleUpdateNotes_def Let_def)

text \<open>
  C9. A confirmed correction has a new text that is not blank. With the option to add it
  to the vocabulary, both edit handlers leave the vocabulary as it is when one of its
  words equals the trimmed new text up to the case of the letters, and otherwise append
  one entry whose word is the trimmed new text and whose description is
  \<^verbatim>\<open>Corrected from "..."\<close> around the trimmed old text.
\<close>

theorem C9_vocabulary_from_correction:
  assumes "trim newText \<noteq> []"
    and "entry = \<lparr>voc_id = now, voc_word = trim newText,
           voc_description = ''Corrected from '' @ [CHR 0x22] @ trim oldText @ [CHR 0x22]\<rparr>"
    and "after_edit = st_vocabulary (snd (handleEditAndUpdateVocabulary now oldText newText
           replaceAll True chunkIndex start end' s))"
    and "after_note_edit = st_vocabulary (snd (handleNoteEditAndUpdateVocabulary now oldText newText
           replaceAll True start end' s))"
  shows
    "((\<exists>item \<in> set (st_vocabulary s). toLowerCase (voc_word item) = toLowerCase (trim newText)) \<longrightarrow>
        after_edit = st_vocabulary s \<and> after_note_edit = st_vocabulary s)
     \<and> (\<not> (\<exists>item \<in> set (st_vocabulary s). toLowerCase (voc_word item) = toLowerCase (trim newText)) \<longrightarrow>
        after_edit = st_vocabulary s @ [entry] \<and> after_note_edit = st_vocabulary s @ [entry])"
  using assms
  by (simp add: handleEditAndUpdateVocabulary_vocabulary handleNoteEditAndUpdateVocabulary_vocabulary
      add_correction_def Let_def list_ex_iff)

theorem C9_witness:
  "st_vocabulary (snd (handleEditAndUpdateVocabulary 1700000000000 ''a p i'' '' API '' True True 0 4 9
      ((example_state example_db)\<lparr>st_vocabulary :=
         [\<lparr>voc_id = 1, voc_word = ''api'', voc_description = ''''\<rparr>]\<rparr>))) =
     [\<lparr>voc_id = 1, voc_word = ''api'', voc_description = ''''\<rparr>]
   \<and> st_vocabulary (snd (handleNoteEditAndUpdateVocabulary 1700000000000 ''cooper netties''
      ''Kubernetes '' False True 0 14
      ((example_state example_db)\<lparr>st_vocabulary :=
         [\<lparr>voc_id = 1, voc_word = ''api'', voc_description = ''''\<rparr>]\<rparr>))) =
     [\<lparr>voc_id = 1, voc_word = ''api'', voc_description = ''''\<rparr>,
      \<lparr>voc_id = 1700000000000, voc_word = ''Kubernetes'',
        voc_description = ''Corrected from '' @ [CHR 0x22] @ ''cooper netties'' @ [CHR 0x22]\<rparr>]"
proof -
  let ?s = "(example_state example_db)\<lparr>st_vocabulary :=
         [\<lparr>voc_id = 1, voc_word = ''api'', voc_description = ''''\<rparr>]\<rparr>"
  have t1: "trim '' API '' = ''API''" and t2: "trim ''Kubernetes '' = ''Kubernetes''"
    and t3: "trim ''cooper netties'' = ''cooper netties''"
    by (simp_all add: trim_def is_ws_def)
  have l1: "toLowerCase ''API'' = ''api''" and l2: "toLowerCase ''api'' = ''api''"
    and l3: "toLowerCase ''Kubernetes'' = ''kubernetes''"
    by code_simp+
  have v: "st_vocabulary ?s = [\<lparr>voc_id = 1, voc_word = ''api'', voc_description = ''''\<rparr>]"
    by (simp add: example_state_def)
  from C9_vocabulary_from_correction [OF _ refl refl refl, of "'' API ''" ?s 1700000000000 "''a p i''"
      True 0 4 9]
  have one: "st_vocabulary (snd (handleEditAndUpdateVocabulary 1700000000000 ''a p i'' '' API '' True
      True 0 4 9 ?s)) = [\<lparr>voc_id = 1, voc_word = ''api'', voc_description = ''''\<rparr>]"
    by (simp add: t1 l1 l2 v)
  from C9_vocabulary_from_correction [OF _ refl refl refl, of "''Kubernetes ''" ?s 1700000000000
      "''cooper netties''" False 0 0 14]
  have two: "st_vocabulary (snd (handleNoteEditAndUpdateVocabulary 1700000000000 ''cooper netties''
      ''Kubernetes '' False True 0 14 ?s)) =
     [\<lparr>voc_id = 1, voc_word = ''api'', voc_description = ''''\<rparr>,
      \<lparr>voc_id = 1700000000000, voc_word = ''Kubernetes'',
        voc_description = ''Corrected from '' @ [CHR 0x22] @ ''cooper netties'' @ [CHR 0x22]\<rparr>]"
    by (simp add: t2 t3 l3 l2 v)
  from one two show ?thesis by simp
qed

text \<open>
  C7. The claim: in the mode that replaces all occurrences, every literal occurrence of the
  old text is replaced with the new text. The old text is escaped, but the new text is
  handed to \<^verbatim>\<open>replace\<close> as it is, where a dollar sign starts a replacement pattern:
  with the new text \<^verbatim>\<open>US$$\<close> the occurrences of \<^verbatim>\<open>USD\<close> become \<^verbatim>\<open>US$\<close>.
\<close>

theorem C7_new_text_read_as_pattern:
  "handleEditAndUpdateVocabulary 1700000000000 ''USD'' ''US$$'' True False 0 9 12
     ((example_state example_db)\<lparr>st_transcriptChunks :=
        [\<lparr>tc_index = 0, tc_content = ''price in USD'', tc_status = ChunkCompleted\<rparr>]\<rparr>) =
   (Inr (), (example_state example_db)\<lparr>st_transcriptChunks :=
        [\<lparr>tc_index = 0, tc_content = ''price in US$'', tc_status = ChunkCompleted\<rparr>]\<rparr>)"
  by (simp add: handleEditAndUpdateVocabulary_def map_throwing_total [OF edit_chunk_total]
      example_state_def trim_def is_ws_def enumerate_eq_zip upt_rec)

text \<open>
  What does hold for the substitution: a new text without a dollar sign replaces the
  matches as it is, and the mode for one occurrence rewrites the range of the addressed
  piece only.
\<close>

lemma replace_range_piece_only:
  "map_throwing (edit_chunk oldText newText False chunkIndex start end') (enumerate 0 chunks) =
     Inr (map (\<lambda>ic. if fst ic = chunkIndex
                     then (snd ic)\<lparr>tc_content :=
                            take start (tc_content (snd ic)) @ newText @ drop end' (tc_content (snd ic))\<rparr>
                     else snd ic) (enumerate 0 chunks))"
  by (rule map_throwing_total) (simp add: edit_chunk_total replace_range_def)

section \<open>Properties of the notes request\<close>

text \<open>
  C8. The claim: the content of a failed piece, which is an error description, is not
  part of the transcript that goes to the notes stage. handleGenerateNotes joins the
  content of every piece, whatever its status: with a completed piece and a failed one,
  the prompt of the request carries the error text of the failed piece after the
  transcript of the completed one.
\<close>

theorem C8_failed_piece_in_notes_request:
  "st_calls (handleGenerateNotes (\<lambda>calls req. Fulfilled 900 (Some ''# Notes''))
     ((example_state example_db)\<lparr>st_transcriptChunks :=
        [\<lparr>tc_index = 0, tc_content = ''hello team'', tc_status = ChunkCompleted\<rparr>,
         \<lparr>tc_index = 1, tc_content = ''Error transcribing audio: quota exceeded'',
           tc_status = ChunkFailed\<rparr>]\<rparr>)) =
   [\<lparr>req_model = ''gemini-2.5-flash'',
     req_contents = TextPrompt (notes_prompt ''Summarise the meeting.''
       ''hello team Error transcribing audio: quota exceeded'')\<rparr>]"
  by (simp add: handleGenerateNotes_def fullTranscript_def formatNotes_def example_state_def
      trim_def is_ws_def Let_def split: sum.splits thrown.splits)

section \<open>Properties of a run of the pipeline\<close>

text \<open>Above the maximal size every piece of the plan has at least one byte.\<close>

lemma chunk_blob_not_empty:
  assumes "MAX_CHUNK_SIZE_BYTES < blob_size blob" and "i < totalChunks (blob_size blob)"
  shows "0 < blob_size (chunk_blob blob i)"
proof -
  from assms have "chunk_start i < blob_size blob"
    by (rule chunk_start_in_payload)
  moreover have "0 < MAX_CHUNK_SIZE_BYTES - HEADER_SIZE_BYTES"
    by (simp add: MAX_CHUNK_SIZE_BYTES_def HEADER_SIZE_BYTES_def)
  ultimately show ?thesis
    by (simp add: chunk_blob_def blob_slice_def blob_size_def chunk_end_def)
qed

lemma piece_outcomes_length:
  "length (fst (piece_outcomes remote blob prompt indices calls)) = length indices"
  by (induction indices arbitrary: calls) (simp_all add: Let_def)

lemma loadRecordings_opened: "db_opened (st_db s) \<Longrightarrow> loadRecordings s = s"
  by (simp add: loadRecordings_def)

lemma updateRecording_stored_eq:
  "db_opened db \<Longrightarrow> db_recordings db k = Some data \<Longrightarrow> rec_id data = k \<Longrightarrow>
   updateRecording k updates db =
     (Inr (), db\<lparr>db_recordings := (db_recordings db)(k \<mapsto> data\<lparr>
      rec_name := (case u_name updates of None \<Rightarrow> rec_name data | Some v \<Rightarrow> v),
      rec_size := (case u_size updates of None \<Rightarrow> rec_size data | Some v \<Rightarrow> v),
      rec_mimeType := (case u_mimeType updates of None \<Rightarrow> rec_mimeType data | Some v \<Rightarrow> v),
      rec_status := (case u_status updates of None \<Rightarrow> rec_status data | Some v \<Rightarrow> v),
      rec_progress := (case u_progress updates of None \<Rightarrow> rec_progress data | Some v \<Rightarrow> v),
      rec_transcriptChunks :=
        (case u_transcriptChunks updates of None \<Rightarrow> rec_transcriptChunks data | Some v \<Rightarrow> v),
      rec_formattedNotes :=
        (case u_formattedNotes updates of None \<Rightarrow> rec_formattedNotes data | Some v \<Rightarrow> Some v),
      rec_blob := (case u_blob updates of None \<Rightarrow> rec_blob data | Some v \<Rightarrow> v)\<rparr>)\<rparr>)"
  by (simp add: updateRecording_stored merge_eq)

lemma single_catch_stored:
  assumes "db_opened (st_db t)" and "db_recordings (st_db t) k = Some r" and "rec_id r = k"
    and "failedChunk = \<lparr>tc_index = 0, tc_content = message_or_string e, tc_status = ChunkFailed\<rparr>"
  shows "single_catch k e t =
     (Inl e, t\<lparr>st_transcriptChunks := [failedChunk],
               st_db := (st_db t)\<lparr>db_recordings := (db_recordings (st_db t))(k \<mapsto>
                 r\<lparr>rec_status := Failed, rec_progress := 100,
                    rec_transcriptChunks := [failedChunk]\<rparr>)\<rparr>\<rparr>)"
  using assms
  by (simp add: single_catch_def Let_def updateRecording_stored_eq no_updates_def;
      intro App.equality; simp)

text \<open>
  The single-piece branch when the transcription fails: the failed piece is stored with
  status failed and progress 100, and the error is thrown again.
\<close>

lemma process_single_fails:
  assumes "db_opened (st_db t)" and "db_recordings (st_db t) k = Some r" and "rec_id r = k"
    and "transcribeAudio remote blob (before_semicolon (blob_type blob)) finalPrompt (st_calls t)
           = (Inl e, calls1)"
    and "failedChunk = \<lparr>tc_index = 0, tc_content = message_or_string e, tc_status = ChunkFailed\<rparr>"
  shows "process_single remote k blob finalPrompt t =
     (Inl e, t\<lparr>st_calls := calls1, st_transcriptChunks := [failedChunk],
               st_db := (st_db t)\<lparr>db_recordings := (db_recordings (st_db t))(k \<mapsto>
                 r\<lparr>rec_status := Failed, rec_progress := 100,
                    rec_transcriptChunks := [failedChunk]\<rparr>)\<rparr>\<rparr>)"
proof -
  let ?r1 = "r\<lparr>rec_progress := 10\<rparr>"
  let ?db1 = "(st_db t)\<lparr>db_recordings := (db_recordings (st_db t))(k \<mapsto> ?r1)\<rparr>"
  let ?newChunk = "\<lparr>tc_index = 0, tc_content = [], tc_status = ChunkProcessing\<rparr>"
  let ?t2 = "t\<lparr>st_db := ?db1, st_transcriptChunks := [?newChunk], st_calls := calls1\<rparr>"
  have u1: "updateRecording k (no_updates\<lparr>u_progress := Some 10\<rparr>) (st_db t) = (Inr (), ?db1)"
    using assms(1-3) by (simp add: updateRecording_stored_eq no_updates_def)
  have c: "single_catch k e ?t2 =
     (Inl e, ?t2\<lparr>st_transcriptChunks := [failedChunk],
               st_db := (st_db ?t2)\<lparr>db_recordings := (db_recordings (st_db ?t2))(k \<mapsto>
                 ?r1\<lparr>rec_status := Failed, rec_progress := 100,
                    rec_transcriptChunks := [failedChunk]\<rparr>)\<rparr>\<rparr>)"
    using assms(1,3,5) by (intro single_catch_stored) simp_all
  show ?thesis
    using assms(1,4) c
    by (simp add: process_single_def u1 Let_def loadRecordings_opened;
        intro App.equality; simp)
qed

text \<open>One turn of the loop for a piece that has bytes.\<close>

lemma chunk_loop_turn:
  assumes "db_opened (st_db s)" and "db_recordings (st_db s) k = Some r" and "rec_id r = k"
    and "0 < blob_size (chunk_blob blob i)"
    and "header = blob_slice 0 HEADER_SIZE_BYTES (blob_type blob) blob"
    and "result = transcribeAudio remote (piece_blob blob i) (before_semicolon (blob_type blob))
                    prompt (st_calls s)"
    and "chunks1 = finalChunks[i :=
           (case fst result of
              Inr transcriptPart \<Rightarrow>
                (finalChunks ! i)\<lparr>tc_content := trim transcriptPart, tc_status := ChunkCompleted\<rparr>
            | Inl chunkError \<Rightarrow>
                (finalChunks ! i)\<lparr>tc_content := message_or_string chunkError,
                   tc_status := ChunkFailed\<rparr>)]"
  shows "chunk_loop remote k blob header prompt n (i # rest) finalChunks s =
     chunk_loop remote k blob header prompt n rest chunks1
       (s\<lparr>st_db := (st_db s)\<lparr>db_recordings := (db_recordings (st_db s))(k \<mapsto>
             r\<lparr>rec_progress := chunk_progress i n, rec_transcriptChunks := chunks1\<rparr>)\<rparr>,
          st_calls := snd result, st_transcriptChunks := chunks1\<rparr>)"
proof -
  let ?s1 = "s\<lparr>st_calls := snd result, st_transcriptChunks := chunks1\<rparr>"
  have sent: "(if i = 0 then chunk_blob blob i
       else blob_concat [header, chunk_blob blob i] (blob_type blob)) = piece_blob blob i"
    by (simp add: piece_blob_def assms(5))
  have chunks: "(case fst result of
          Inr transcriptPart \<Rightarrow>
            finalChunks[i := (finalChunks ! i)
              \<lparr>tc_content := trim transcriptPart, tc_status := ChunkCompleted\<rparr>]
        | Inl chunkError \<Rightarrow>
            finalChunks[i := (finalChunks ! i)
              \<lparr>tc_content := message_or_string chunkError, tc_status := ChunkFailed\<rparr>]) = chunks1"
    by (simp add: assms(7) split: sum.splits)
  have upd: "updateRecording k
      (no_updates\<lparr>u_transcriptChunks := Some chunks1, u_progress := Some (chunk_progress i n)\<rparr>)
      (st_db ?s1) =
      (Inr (), (st_db s)\<lparr>db_recordings := (db_recordings (st_db s))(k \<mapsto>
             r\<lparr>rec_progress := chunk_progress i n, rec_transcriptChunks := chunks1\<rparr>)\<rparr>)"
    using assms(1-3) by (simp add: updateRecording_stored_eq no_updates_def)
  have state: "loadRecordings (?s1\<lparr>st_db := (st_db s)\<lparr>db_recordings := (db_recordings (st_db s))(k \<mapsto>
             r\<lparr>rec_progress := chunk_progress i n, rec_transcriptChunks := chunks1\<rparr>)\<rparr>\<rparr>) =
      s\<lparr>st_db := (st_db s)\<lparr>db_recordings := (db_recordings (st_db s))(k \<mapsto>
             r\<lparr>rec_progress := chunk_progress i n, rec_transcriptChunks := chunks1\<rparr>)\<rparr>,
          st_calls := snd result, st_transcriptChunks := chunks1\<rparr>"
    using assms(1) by (simp add: loadRecordings_def; intro App.equality; simp)
  from assms(4) have ne: "blob_size (chunk_blob blob i) \<noteq> 0" by simp
  show ?thesis
    unfolding chunk_loop.simps Let_def chunk_blob_def [symmetric] sent assms(6) [symmetric] chunks
    using ne upd state by simp
qed

lemma piece_result_update:
  "(case outcome of
      Inr transcriptPart \<Rightarrow>
        \<lparr>tc_index = i, tc_content = [], tc_status = ChunkProcessing\<rparr>
          \<lparr>tc_content := trim transcriptPart, tc_status := ChunkCompleted\<rparr>
    | Inl chunkError \<Rightarrow>
        \<lparr>tc_index = i, tc_content = [], tc_status = ChunkProcessing\<rparr>
          \<lparr>tc_content := message_or_string chunkError, tc_status := ChunkFailed\<rparr>) =
   piece_result i outcome"
  by (simp add: piece_result_def split: sum.splits)

text \<open>
  The loop from index \<open>j\<close> on, when the pieces below \<open>j\<close> are settled and those from
  \<open>j\<close> on are still processing: every piece is attempted, in order, and gets the result
  of its own outcome.
\<close>

lemma chunk_loop_pieces:
  assumes "length settled = j" and "j \<le> n"
    and "db_opened (st_db s)" and "db_recordings (st_db s) k = Some r" and "rec_id r = k"
    and "\<And>i. j \<le> i \<Longrightarrow> i < n \<Longrightarrow> 0 < blob_size (chunk_blob blob i)"
    and "header = blob_slice 0 HEADER_SIZE_BYTES (blob_type blob) blob"
    and "pieces = settled @ map2 piece_result [j..<n]
           (fst (piece_outcomes remote blob prompt [j..<n] (st_calls s)))"
  shows "chunk_loop remote k blob header prompt n [j..<n]
           (settled @ map (\<lambda>i. \<lparr>tc_index = i, tc_content = [], tc_status = ChunkProcessing\<rparr>) [j..<n]) s =
     (Inr pieces,
      if j < n then
        s\<lparr>st_db := (st_db s)\<lparr>db_recordings := (db_recordings (st_db s))(k \<mapsto>
             r\<lparr>rec_progress := chunk_progress (n - 1) n, rec_transcriptChunks := pieces\<rparr>)\<rparr>,
          st_calls := snd (piece_outcomes remote blob prompt [j..<n] (st_calls s)),
          st_transcriptChunks := pieces\<rparr>
      else s)"
  using assms
proof (induction "n - j" arbitrary: j settled s r pieces)
  case 0
  then show ?case by simp
next
  case (Suc d)
  let ?init = "\<lambda>i. \<lparr>tc_index = i, tc_content = [], tc_status = ChunkProcessing\<rparr>"
  from Suc.hyps(2) have jn: "j < n" by simp
  then have upt: "[j..<n] = j # [Suc j..<n]" by (simp add: upt_conv_Cons)
  define result where "result = transcribeAudio remote (piece_blob blob j)
      (before_semicolon (blob_type blob)) prompt (st_calls s)"
  define x where "x = piece_result j (fst result)"
  define chunks1 where "chunks1 = (settled @ [x]) @ map ?init [Suc j..<n]"
  define r1 where "r1 = r\<lparr>rec_progress := chunk_progress j n, rec_transcriptChunks := chunks1\<rparr>"
  define s1 where "s1 = s\<lparr>st_db := (st_db s)\<lparr>db_recordings := (db_recordings (st_db s))(k \<mapsto> r1)\<rparr>,
          st_calls := snd result, st_transcriptChunks := chunks1\<rparr>"
  have nth: "(settled @ map ?init [j..<n]) ! j = ?init j"
    using Suc.prems(1) by (simp add: upt nth_append)
  have chunks1: "chunks1 = (settled @ map ?init [j..<n])[j :=
           (case fst result of
              Inr transcriptPart \<Rightarrow>
                ((settled @ map ?init [j..<n]) ! j)\<lparr>tc_content := trim transcriptPart, tc_status := ChunkCompleted\<rparr>
            | Inl chunkError \<Rightarrow>
                ((settled @ map ?init [j..<n]) ! j)\<lparr>tc_content := message_or_string chunkError,
                   tc_status := ChunkFailed\<rparr>)]"
    unfolding nth piece_result_update
    using Suc.prems(1) by (simp add: chunks1_def x_def upt list_update_append)
  have "0 < blob_size (chunk_blob blob j)"
    using jn by (intro Suc.prems(6)) simp_all
  from chunk_loop_turn [OF Suc.prems(3,4,5) this Suc.prems(7) result_def chunks1]
  have turn: "chunk_loop remote k blob header prompt n [j..<n] (settled @ map ?init [j..<n]) s =
      chunk_loop remote k blob header prompt n [Suc j..<n] ((settled @ [x]) @ map ?init [Suc j..<n]) s1"
    by (simp add: upt s1_def r1_def chunks1_def)
  have outs: "piece_outcomes remote blob prompt [j..<n] (st_calls s) =
      (fst result # fst (piece_outcomes remote blob prompt [Suc j..<n] (st_calls s1)),
       snd (piece_outcomes remote blob prompt [Suc j..<n] (st_calls s1)))"
    by (simp add: upt Let_def result_def s1_def)
  have pieces: "pieces = (settled @ [x]) @ map2 piece_result [Suc j..<n]
           (fst (piece_outcomes remote blob prompt [Suc j..<n] (st_calls s1)))"
    unfolding Suc.prems(8) outs by (simp add: upt x_def)
  have ih: "chunk_loop remote k blob header prompt n [Suc j..<n]
           ((settled @ [x]) @ map ?init [Suc j..<n]) s1 =
     (Inr pieces,
      if Suc j < n then
        s1\<lparr>st_db := (st_db s1)\<lparr>db_recordings := (db_recordings (st_db s1))(k \<mapsto>
             r1\<lparr>rec_progress := chunk_progress (n - 1) n, rec_transcriptChunks := pieces\<rparr>)\<rparr>,
          st_calls := snd (piece_outcomes remote blob prompt [Suc j..<n] (st_calls s1)),
          st_transcriptChunks := pieces\<rparr>
      else s1)"
  proof (rule Suc.hyps(1))
    show "d = n - Suc j" using Suc.hyps(2) by simp
    show "length (settled @ [x]) = Suc j" using Suc.prems(1) by simp
    show "Suc j \<le> n" using jn by simp
    show "db_opened (st_db s1)" using Suc.prems(3) by (simp add: s1_def)
    show "db_recordings (st_db s1) k = Some r1" by (simp add: s1_def)
    show "rec_id r1 = k" using Suc.prems(5) by (simp add: r1_def)
    show "\<And>i. Suc j \<le> i \<Longrightarrow> i < n \<Longrightarrow> 0 < blob_size (chunk_blob blob i)"
      by (rule Suc.prems(6)) simp_all
    show "header = blob_slice 0 HEADER_SIZE_BYTES (blob_type blob) blob" by (rule Suc.prems(7))
    show "pieces = (settled @ [x]) @ map2 piece_result [Suc j..<n]
           (fst (piece_outcomes remote blob prompt [Suc j..<n] (st_calls s1)))"
      by (rule pieces)
  qed
  show ?case
  proof (cases "Suc j < n")
    case True
    have "s1\<lparr>st_db := (st_db s1)\<lparr>db_recordings := (db_recordings (st_db s1))(k \<mapsto>
             r1\<lparr>rec_progress := chunk_progress (n - 1) n, rec_transcriptChunks := pieces\<rparr>)\<rparr>,
          st_calls := snd (piece_outcomes remote blob prompt [Suc j..<n] (st_calls s1)),
          st_transcriptChunks := pieces\<rparr> =
        s\<lparr>st_db := (st_db s)\<lparr>db_recordings := (db_recordings (st_db s))(k \<mapsto>
             r\<lparr>rec_progress := chunk_progress (n - 1) n, rec_transcriptChunks := pieces\<rparr>)\<rparr>,
          st_calls := snd (piece_outcomes remote blob prompt [j..<n] (st_calls s)),
          st_transcriptChunks := pieces\<rparr>"
      unfolding outs by (simp add: s1_def r1_def)
    with True jn turn ih show ?thesis by simp
  next
    case False
    with jn have last: "Suc j = n" by simp
    then have "pieces = chunks1"
      unfolding pieces chunks1_def by simp
    moreover from last have "n - 1 = j" by simp
    ultimately have "s1 =
        s\<lparr>st_db := (st_db s)\<lparr>db_recordings := (db_recordings (st_db s))(k \<mapsto>
             r\<lparr>rec_progress := chunk_progress (n - 1) n, rec_transcriptChunks := pieces\<rparr>)\<rparr>,
          st_calls := snd (piece_outcomes remote blob prompt [j..<n] (st_calls s)),
          st_transcriptChunks := pieces\<rparr>"
      unfolding outs using last by (simp add: s1_def r1_def)
    with False jn turn ih show ?thesis by simp
  qed
qed

lemma pieces_all_completed:
  "length indices = length outcomes \<Longrightarrow>
   list_all (\<lambda>c. tc_status c = ChunkCompleted) (map2 piece_result indices outcomes) =
     list_all succeeded outcomes"
  by (induction indices outcomes rule: list_induct2)
    (simp_all add: piece_result_def succeeded_def split: sum.splits)

text \<open>The multi-piece branch when the store accepts every write.\<close>

lemma process_multi_pieces:
  assumes "db_opened (st_db s)" and "db_recordings (st_db s) k = Some r" and "rec_id r = k"
    and "MAX_CHUNK_SIZE_BYTES < blob_size blob"
    and "n = totalChunks (blob_size blob)"
    and "outcomes = fst (piece_outcomes remote blob prompt [0..<n] (st_calls s))"
    and "pieces = map2 piece_result [0..<n] outcomes"
  shows "process_multi remote k blob prompt s =
     (Inr (),
      s\<lparr>st_db := (st_db s)\<lparr>db_recordings := (db_recordings (st_db s))(k \<mapsto>
           r\<lparr>rec_status := (if list_all succeeded outcomes then Completed else Failed),
              rec_progress := 100, rec_transcriptChunks := pieces\<rparr>)\<rparr>,
        st_calls := snd (piece_outcomes remote blob prompt [0..<n] (st_calls s)),
        st_transcriptChunks := pieces\<rparr>)"
proof -
  let ?init = "\<lambda>i. \<lparr>tc_index = i, tc_content = [], tc_status = ChunkProcessing\<rparr>"
  let ?header = "blob_slice 0 HEADER_SIZE_BYTES (blob_type blob) blob"
  define r0 where "r0 = r\<lparr>rec_progress := 10, rec_transcriptChunks := map ?init [0..<n]\<rparr>"
  define s0 where "s0 = s\<lparr>st_db := (st_db s)\<lparr>db_recordings := (db_recordings (st_db s))(k \<mapsto> r0)\<rparr>,
      st_transcriptChunks := map ?init [0..<n]\<rparr>"
  define s2 where "s2 = s0\<lparr>st_db := (st_db s0)\<lparr>db_recordings := (db_recordings (st_db s0))(k \<mapsto>
             r0\<lparr>rec_progress := chunk_progress (n - 1) n, rec_transcriptChunks := pieces\<rparr>)\<rparr>,
          st_calls := snd (piece_outcomes remote blob prompt [0..<n] (st_calls s0)),
          st_transcriptChunks := pieces\<rparr>"
  from assms(4,5) have n2: "2 \<le> n" by (simp add: totalChunks_ge_2)
  have len: "length [0..<n] = length outcomes"
    by (simp add: assms(6) piece_outcomes_length)
  have first: "updateRecording k
      (no_updates\<lparr>u_transcriptChunks := Some (map ?init [0..<n]), u_progress := Some 10\<rparr>)
      (st_db (s\<lparr>st_transcriptChunks := map ?init [0..<n]\<rparr>)) =
      (Inr (), (st_db s)\<lparr>db_recordings := (db_recordings (st_db s))(k \<mapsto> r0)\<rparr>)"
    using assms(1-3) by (simp add: updateRecording_stored_eq no_updates_def r0_def)
  have loaded: "loadRecordings (s\<lparr>st_transcriptChunks := map ?init [0..<n],
      st_db := (st_db s)\<lparr>db_recordings := (db_recordings (st_db s))(k \<mapsto> r0)\<rparr>\<rparr>) = s0"
    using assms(1) by (simp add: loadRecordings_def s0_def; intro App.equality; simp)
  have loop: "chunk_loop remote k blob ?header prompt n [0..<n] ([] @ map ?init [0..<n]) s0 =
      (Inr pieces, if 0 < n then s2 else s0)"
    unfolding s2_def
  proof (rule chunk_loop_pieces)
    show "length ([] :: TranscriptChunk list) = 0" by simp
    show "0 \<le> n" by simp
    show "db_opened (st_db s0)" using assms(1) by (simp add: s0_def)
    show "db_recordings (st_db s0) k = Some r0" by (simp add: s0_def)
    show "rec_id r0 = k" using assms(3) by (simp add: r0_def)
    show "\<And>i. 0 \<le> i \<Longrightarrow> i < n \<Longrightarrow> 0 < blob_size (chunk_blob blob i)"
      using assms(4,5) by (simp add: chunk_blob_not_empty)
    show "?header = blob_slice 0 HEADER_SIZE_BYTES (blob_type blob) blob" by simp
    show "pieces = [] @ map2 piece_result [0..<n]
        (fst (piece_outcomes remote blob prompt [0..<n] (st_calls s0)))"
      by (simp add: assms(6,7) s0_def)
  qed
  have last: "updateRecording k
      (no_updates\<lparr>u_status := Some (if list_all (\<lambda>c. tc_status c = ChunkCompleted) pieces
                                     then Completed else Failed), u_progress := Some 100\<rparr>)
      (st_db s2) =
      (Inr (), (st_db s)\<lparr>db_recordings := (db_recordings (st_db s))(k \<mapsto>
           r\<lparr>rec_status := (if list_all succeeded outcomes then Completed else Failed),
              rec_progress := 100, rec_transcriptChunks := pieces\<rparr>)\<rparr>)"
    using assms(1-3) len
    by (simp add: updateRecording_stored_eq no_updates_def s2_def s0_def r0_def assms(7)
        pieces_all_completed)
  have final: "s2\<lparr>st_db := (st_db s)\<lparr>db_recordings := (db_recordings (st_db s))(k \<mapsto>
           r\<lparr>rec_status := (if list_all succeeded outcomes then Completed else Failed),
              rec_progress := 100, rec_transcriptChunks := pieces\<rparr>)\<rparr>\<rparr> =
      s\<lparr>st_db := (st_db s)\<lparr>db_recordings := (db_recordings (st_db s))(k \<mapsto>
           r\<lparr>rec_status := (if list_all succeeded outcomes then Completed else Failed),
              rec_progress := 100, rec_transcriptChunks := pieces\<rparr>)\<rparr>,
        st_calls := snd (piece_outcomes remote blob prompt [0..<n] (st_calls s)),
        st_transcriptChunks := pieces\<rparr>"
    by (simp add: s2_def s0_def; intro App.equality; simp)
  from n2 have "0 < n" by simp
  with loop have loop': "chunk_loop remote k blob ?header prompt n [0..<n] (map ?init [0..<n]) s0 =
      (Inr pieces, s2)"
    by simp
  show ?thesis
    unfolding process_multi_def Let_def assms(5) [symmetric] first
    by (simp add: loaded loop' last final)
qed

text \<open>
  The state in which processRecording enters one of its two branches, for a stored
  recording that is not yet transcribed.
\<close>

lemma process_loaded_branch:
  assumes "db_opened (st_db s)" and "db_recordings (st_db s) k = Some recording"
    and "rec_id recording = k"
    and "rec_status recording \<noteq> Completed \<or> rec_transcriptChunks recording = []"
    and "r1 = recording\<lparr>rec_status := Transcribing, rec_progress := 5, rec_transcriptChunks := []\<rparr>"
    and "s2 = s\<lparr>st_db := (st_db s)\<lparr>db_recordings := (db_recordings (st_db s))(k \<mapsto> r1)\<rparr>,
           st_isTranscribing := True,
           st_transcriptChunks := rec_transcriptChunks recording,
           st_generatedNotes := (case rec_formattedNotes recording of None \<Rightarrow> [] | Some n \<Rightarrow> n),
           st_error := None, st_recordedAudioBlob := Some (rec_blob recording),
           st_activeRecordingId := Some k\<rparr>"
  shows "processRecording remote k s =
     process_finally
       (case (case (if blob_size (rec_blob recording) \<le> MAX_CHUNK_SIZE_BYTES
                    then process_single remote k (rec_blob recording)
                           (buildTranscriptionPromptWithVocabulary s) s2
                    else process_multi remote k (rec_blob recording)
                           (buildTranscriptionPromptWithVocabulary s) s2) of
                (Inl e, s3) \<Rightarrow> (Inl e, s3)
              | (Inr u2, s3) \<Rightarrow> (Inr (), loadRecordings s3)) of
          (Inl e, s3) \<Rightarrow> process_catch (Some recording) e s3
        | (Inr u, s3) \<Rightarrow> (Inr (), s3))"
proof -
  let ?s1 = "s\<lparr>st_transcriptChunks := [], st_generatedNotes := [], st_error := None,
                 st_isTranscribing := True, st_activeRecordingId := Some k\<rparr>"
  let ?s1' = "?s1\<lparr>st_recordedAudioBlob := Some (rec_blob recording),
                 st_transcriptChunks := rec_transcriptChunks recording,
                 st_generatedNotes :=
                   (case rec_formattedNotes recording of None \<Rightarrow> [] | Some n \<Rightarrow> n)\<rparr>"
  have got: "getRecording k (st_db ?s1) = Inr (Some recording)"
    using assms(1,2) by (simp add: getRecording_def)
  have todo: "\<not> (rec_status recording = Completed \<and> length (rec_transcriptChunks recording) > 0)"
    using assms(4) by auto
  have reset: "updateRecording k
      (no_updates\<lparr>u_status := Some Transcribing, u_progress := Some 5,
         u_transcriptChunks := Some []\<rparr>) (st_db ?s1') =
      (Inr (), (st_db s)\<lparr>db_recordings := (db_recordings (st_db s))(k \<mapsto> r1)\<rparr>)"
    using assms(1-3) by (simp add: updateRecording_stored_eq no_updates_def assms(5))
  have loaded: "loadRecordings (?s1'\<lparr>st_db :=
      (st_db s)\<lparr>db_recordings := (db_recordings (st_db s))(k \<mapsto> r1)\<rparr>\<rparr>) = s2"
    using assms(1) by (simp add: loadRecordings_def assms(6); intro App.equality; simp)
  have prompt: "buildTranscriptionPromptWithVocabulary s2 = buildTranscriptionPromptWithVocabulary s"
    by (simp add: buildTranscriptionPromptWithVocabulary_def assms(6))
  have branch: "process_loaded remote k recording ?s1 =
     (case (if blob_size (rec_blob recording) \<le> MAX_CHUNK_SIZE_BYTES
            then process_single remote k (rec_blob recording)
                   (buildTranscriptionPromptWithVocabulary s) s2
            else process_multi remote k (rec_blob recording)
                   (buildTranscriptionPromptWithVocabulary s) s2) of
        (Inl e, s3) \<Rightarrow> (Inl e, s3)
      | (Inr u2, s3) \<Rightarrow> (Inr (), loadRecordings s3))"
    unfolding process_loaded_def Let_def
    by (simp only: todo if_False reset prod.case sum.case loaded prompt)
  show ?thesis
    unfolding processRecording_def Let_def
    by (simp only: got sum.case option.case branch)
qed

lemma processRecording_multi:
  assumes "db_opened (st_db s)" and "db_recordings (st_db s) k = Some recording"
    and "rec_id recording = k"
    and "rec_status recording \<noteq> Completed \<or> rec_transcriptChunks recording = []"
    and "MAX_CHUNK_SIZE_BYTES < blob_size (rec_blob recording)"
    and "blob = rec_blob recording"
    and "n = totalChunks (blob_size blob)"
    and "prompt = buildTranscriptionPromptWithVocabulary s"
    and "outcomes = fst (piece_outcomes remote blob prompt [0..<n] (st_calls s))"
    and "pieces = map2 piece_result [0..<n] outcomes"
  shows "processRecording remote k s =
     (Inr (),
      s\<lparr>st_db := (st_db s)\<lparr>db_recordings := (db_recordings (st_db s))(k \<mapsto>
           recording\<lparr>rec_status := (if list_all succeeded outcomes then Completed else Failed),
              rec_progress := 100, rec_transcriptChunks := pieces\<rparr>)\<rparr>,
        st_calls := snd (piece_outcomes remote blob prompt [0..<n] (st_calls s)),
        st_isTranscribing := False,
        st_transcriptChunks := pieces,
        st_generatedNotes := (case rec_formattedNotes recording of None \<Rightarrow> [] | Some n \<Rightarrow> n),
        st_error := None, st_recordedAudioBlob := Some blob,
        st_activeRecordingId := Some k\<rparr>)"
proof -
  define r1 where "r1 = recording\<lparr>rec_status := Transcribing, rec_progress := 5,
      rec_transcriptChunks := []\<rparr>"
  define s2 where "s2 = s\<lparr>st_db := (st_db s)\<lparr>db_recordings := (db_recordings (st_db s))(k \<mapsto> r1)\<rparr>,
           st_isTranscribing := True,
           st_transcriptChunks := rec_transcriptChunks recording,
           st_generatedNotes := (case rec_formattedNotes recording of None \<Rightarrow> [] | Some n \<Rightarrow> n),
           st_error := None, st_recordedAudioBlob := Some (rec_blob recording),
           st_activeRecordingId := Some k\<rparr>"
  have multi: "process_multi remote k blob prompt s2 =
     (Inr (),
      s2\<lparr>st_db := (st_db s2)\<lparr>db_recordings := (db_recordings (st_db s2))(k \<mapsto>
           r1\<lparr>rec_status := (if list_all succeeded outcomes then Completed else Failed),
              rec_progress := 100, rec_transcriptChunks := pieces\<rparr>)\<rparr>,
        st_calls := snd (piece_outcomes remote blob prompt [0..<n] (st_calls s2)),
        st_transcriptChunks := pieces\<rparr>)"
  proof (rule process_multi_pieces)
    show "db_opened (st_db s2)" using assms(1) by (simp add: s2_def)
    show "db_recordings (st_db s2) k = Some r1" by (simp add: s2_def)
    show "rec_id r1 = k" using assms(3) by (simp add: r1_def)
    show "MAX_CHUNK_SIZE_BYTES < blob_size blob" using assms(5,6) by simp
    show "n = totalChunks (blob_size blob)" by (rule assms(7))
    show "outcomes = fst (piece_outcomes remote blob prompt [0..<n] (st_calls s2))"
      by (simp add: assms(9) s2_def)
    show "pieces = map2 piece_result [0..<n] outcomes" by (rule assms(10))
  qed
  have big: "\<not> blob_size (rec_blob recording) \<le> MAX_CHUNK_SIZE_BYTES"
    using assms(5) by simp
  have opened2: "db_opened (st_db s2)" using assms(1) by (simp add: s2_def)
  have "processRecording remote k s =
     (Inr (),
      s2\<lparr>st_db := (st_db s2)\<lparr>db_recordings := (db_recordings (st_db s2))(k \<mapsto>
           r1\<lparr>rec_status := (if list_all succeeded outcomes then Completed else Failed),
              rec_progress := 100, rec_transcriptChunks := pieces\<rparr>)\<rparr>,
        st_calls := snd (piece_outcomes remote blob prompt [0..<n] (st_calls s2)),
        st_isTranscribing := False,
        st_transcriptChunks := pieces\<rparr>)"
    unfolding process_loaded_branch [OF assms(1-4) r1_def s2_def]
    using big opened2 multi [unfolded assms(6) assms(8)]
    by (simp add: process_finally_def loadRecordings_def assms(6) assms(8))
  then show ?thesis
    by (simp add: s2_def r1_def assms(6); intro App.equality; simp)
qed

lemma processRecording_single_fails:
  assumes "db_opened (st_db s)" and "db_recordings (st_db s) k = Some recording"
    and "rec_id recording = k"
    and "rec_status recording \<noteq> Completed \<or> rec_transcriptChunks recording = []"
    and "blob_size (rec_blob recording) \<le> MAX_CHUNK_SIZE_BYTES"
    and "transcribeAudio remote (rec_blob recording)
           (before_semicolon (blob_type (rec_blob recording)))
           (buildTranscriptionPromptWithVocabulary s) (st_calls s) = (Inl e, calls1)"
    and "failedChunk = \<lparr>tc_index = 0, tc_content = message_or_string e, tc_status = ChunkFailed\<rparr>"
  shows "processRecording remote k s =
     (Inr (),
      s\<lparr>st_db := (st_db s)\<lparr>db_recordings := (db_recordings (st_db s))(k \<mapsto>
           recording\<lparr>rec_status := Failed, rec_progress := 0,
              rec_transcriptChunks := [failedChunk]\<rparr>)\<rparr>,
        st_calls := calls1,
        st_isTranscribing := False,
        st_transcriptChunks := [failedChunk],
        st_generatedNotes := (case rec_formattedNotes recording of None \<Rightarrow> [] | Some n \<Rightarrow> n),
        st_error := Some (''Processing failed: '' @ message_in_template e
                  @ ''. The file might be too large or in an unsupported format.''),
        st_recordedAudioBlob := Some (rec_blob recording),
        st_activeRecordingId := Some k\<rparr>)"
proof -
  define r1 where "r1 = recording\<lparr>rec_status := Transcribing, rec_progress := 5,
      rec_transcriptChunks := []\<rparr>"
  define s2 where "s2 = s\<lparr>st_db := (st_db s)\<lparr>db_recordings := (db_recordings (st_db s))(k \<mapsto> r1)\<rparr>,
           st_isTranscribing := True,
           st_transcriptChunks := rec_transcriptChunks recording,
           st_generatedNotes := (case rec_formattedNotes recording of None \<Rightarrow> [] | Some n \<Rightarrow> n),
           st_error := None, st_recordedAudioBlob := Some (rec_blob recording),
           st_activeRecordingId := Some k\<rparr>"
  define s3 where "s3 = s2\<lparr>st_calls := calls1, st_transcriptChunks := [failedChunk],
               st_db := (st_db s2)\<lparr>db_recordings := (db_recordings (st_db s2))(k \<mapsto>
                 r1\<lparr>rec_status := Failed, rec_progress := 100,
                    rec_transcriptChunks := [failedChunk]\<rparr>)\<rparr>\<rparr>"
  have single: "process_single remote k (rec_blob recording)
      (buildTranscriptionPromptWithVocabulary s) s2 = (Inl e, s3)"
    unfolding s3_def
  proof (rule process_single_fails)
    show "db_opened (st_db s2)" using assms(1) by (simp add: s2_def)
    show "db_recordings (st_db s2) k = Some r1" by (simp add: s2_def)
    show "rec_id r1 = k" using assms(3) by (simp add: r1_def)
    show "transcribeAudio remote (rec_blob recording)
           (before_semicolon (blob_type (rec_blob recording)))
           (buildTranscriptionPromptWithVocabulary s) (st_calls s2) = (Inl e, calls1)"
      using assms(6) by (simp add: s2_def)
    show "failedChunk = \<lparr>tc_index = 0, tc_content = message_or_string e, tc_status = ChunkFailed\<rparr>"
      by (rule assms(7))
  qed
  have caught: "process_catch (Some recording) e s3 =
     (Inr (),
      s\<lparr>st_db := (st_db s)\<lparr>db_recordings := (db_recordings (st_db s))(k \<mapsto>
           recording\<lparr>rec_status := Failed, rec_progress := 0,
              rec_transcriptChunks := [failedChunk]\<rparr>)\<rparr>,
        st_calls := calls1,
        st_isTranscribing := True,
        st_transcriptChunks := [failedChunk],
        st_generatedNotes := (case rec_formattedNotes recording of None \<Rightarrow> [] | Some n \<Rightarrow> n),
        st_error := Some (''Processing failed: '' @ message_in_template e
                  @ ''. The file might be too large or in an unsupported format.''),
        st_recordedAudioBlob := Some (rec_blob recording),
        st_activeRecordingId := Some k\<rparr>)"
    using assms(1,3)
    by (simp add: process_catch_def Let_def updateRecording_def merge_eq no_updates_def
        loadRecordings_def s3_def s2_def r1_def; intro App.equality; simp)
  show ?thesis
    unfolding process_loaded_branch [OF assms(1-4) r1_def s2_def]
    using assms(5) by (simp add: single caught process_finally_def)
qed

lemma map_at_index:
  assumes "\<forall>i<length pieces. tc_index (pieces ! i) = i" and "j < length pieces"
  shows "map (\<lambda>c. if tc_index c = j then g c else c) pieces = pieces[j := g (pieces ! j)]"
  using assms by (intro nth_equalityI) (auto simp add: nth_list_update)

lemma piece_result_index: "tc_index (piece_result i outcome) = i"
  by (simp add: piece_result_def split: sum.splits)

text \<open>
  A retry of piece \<open>j\<close> whose transcription succeeds, from a state that shows the pieces
  of the active recording: only piece \<open>j\<close> changes, in the state and in the store.
\<close>

lemma retry_try_succeeds:
  assumes "db_opened (st_db t)" and "db_recordings (st_db t) k = Some r" and "rec_id r = k"
    and "MAX_CHUNK_SIZE_BYTES < blob_size (rec_blob r)"
    and "st_transcriptChunks t = pieces"
    and "\<forall>i<length pieces. tc_index (pieces ! i) = i" and "j < length pieces"
    and "transcribeAudio remote (piece_blob (rec_blob r) j)
           (before_semicolon (blob_type (rec_blob r)))
           (buildTranscriptionPromptWithVocabulary t) (st_calls t) = (Inr transcript, calls1)"
    and "retried = pieces[j := \<lparr>tc_index = j, tc_content = trim transcript,
           tc_status = ChunkCompleted\<rparr>]"
  shows "retry_try remote j k t =
     (Inr (),
      t\<lparr>st_db := (st_db t)\<lparr>db_recordings := (db_recordings (st_db t))(k \<mapsto>
           r\<lparr>rec_transcriptChunks := retried\<rparr>)\<rparr>,
        st_calls := calls1, st_transcriptChunks := retried\<rparr>)"
proof -
  let ?processing = "pieces[j := (pieces ! j)\<lparr>tc_status := ChunkProcessing\<rparr>]"
  have upd1: "map (\<lambda>c. if tc_index c = j then c\<lparr>tc_status := ChunkProcessing\<rparr> else c)
      (st_transcriptChunks t) = ?processing"
    unfolding assms(5) using assms(6,7) by (rule map_at_index)
  have idx: "\<forall>i<length ?processing. tc_index (?processing ! i) = i"
    using assms(6,7) by (auto simp add: nth_list_update)
  have "map (\<lambda>c. if tc_index c = j
                  then c\<lparr>tc_status := ChunkCompleted, tc_content := trim transcript\<rparr>
                  else c) ?processing =
      ?processing[j := (?processing ! j)\<lparr>tc_status := ChunkCompleted, tc_content := trim transcript\<rparr>]"
    using idx assms(7) by (intro map_at_index) simp_all
  also have "\<dots> = retried"
  proof -
    have "(pieces ! j)\<lparr>tc_status := ChunkCompleted, tc_content := trim transcript\<rparr> =
        \<lparr>tc_index = j, tc_content = trim transcript, tc_status = ChunkCompleted\<rparr>"
      using assms(6,7) by (intro TranscriptChunk.equality) simp_all
    with assms(7) show ?thesis by (simp add: assms(9))
  qed
  finally have upd2: "map (\<lambda>c. if tc_index c = j
                  then c\<lparr>tc_status := ChunkCompleted, tc_content := trim transcript\<rparr>
                  else c) ?processing = retried" .
  have got: "getRecording k (st_db t) = Inr (Some r)"
    using assms(1,2) by (simp add: getRecording_def)
  have sent: "(if j > 0 \<and> blob_size (rec_blob r) > MAX_CHUNK_SIZE_BYTES
        then blob_concat [blob_slice 0 HEADER_SIZE_BYTES (blob_type (rec_blob r)) (rec_blob r),
               blob_slice (chunk_start j) (chunk_end (blob_size (rec_blob r)) j)
                 (blob_type (rec_blob r)) (rec_blob r)] (blob_type (rec_blob r))
        else blob_slice (chunk_start j) (chunk_end (blob_size (rec_blob r)) j)
               (blob_type (rec_blob r)) (rec_blob r)) = piece_blob (rec_blob r) j"
    using assms(4) by (simp add: piece_blob_def chunk_blob_def)
  have call: "transcribeAudio remote (piece_blob (rec_blob r) j)
           (before_semicolon (blob_type (rec_blob r)))
           (buildTranscriptionPromptWithVocabulary t)
           (st_calls (t\<lparr>st_transcriptChunks := ?processing\<rparr>)) = (Inr transcript, calls1)"
    using assms(8) by simp
  have stored: "updateRecording k (no_updates\<lparr>u_transcriptChunks := Some retried\<rparr>)
       (st_db (t\<lparr>st_transcriptChunks := ?processing, st_calls := calls1,
                   st_transcriptChunks := retried\<rparr>)) =
     (Inr (), (st_db t)\<lparr>db_recordings := (db_recordings (st_db t))(k \<mapsto>
           r\<lparr>rec_transcriptChunks := retried\<rparr>)\<rparr>)"
    using assms(1-3) by (simp add: updateRecording_stored_eq no_updates_def)
  have "retry_try remote j k t =
     (Inr (), t\<lparr>st_transcriptChunks := ?processing, st_calls := calls1,
                   st_transcriptChunks := retried,
                   st_db := (st_db t)\<lparr>db_recordings := (db_recordings (st_db t))(k \<mapsto>
                     r\<lparr>rec_transcriptChunks := retried\<rparr>)\<rparr>\<rparr>)"
    unfolding retry_try_def Let_def upd1
    by (simp only: got sum.case option.case sent call prod.case upd2 stored)
  then show ?thesis
    by (simp; intro App.equality; simp)
qed

lemma handleRetryChunkTranscription_succeeds:
  assumes "st_activeRecordingId t = Some k" and "k \<noteq> 0"
    and "db_opened (st_db t)" and "db_recordings (st_db t) k = Some r" and "rec_id r = k"
    and "MAX_CHUNK_SIZE_BYTES < blob_size (rec_blob r)"
    and "st_transcriptChunks t = pieces"
    and "\<forall>i<length pieces. tc_index (pieces ! i) = i" and "j < length pieces"
    and "transcribeAudio remote (piece_blob (rec_blob r) j)
           (before_semicolon (blob_type (rec_blob r)))
           (buildTranscriptionPromptWithVocabulary t) (st_calls t) = (Inr transcript, calls1)"
    and "retried = pieces[j := \<lparr>tc_index = j, tc_content = trim transcript,
           tc_status = ChunkCompleted\<rparr>]"
  shows "handleRetryChunkTranscription remote j t =
     (Inr (),
      t\<lparr>st_db := (st_db t)\<lparr>db_recordings := (db_recordings (st_db t))(k \<mapsto>
           r\<lparr>rec_transcriptChunks := retried\<rparr>)\<rparr>,
        st_calls := calls1, st_isTranscribing := False, st_transcriptChunks := retried,
        st_error := None\<rparr>)"
proof -
  let ?t1 = "t\<lparr>st_error := None, st_isTranscribing := True\<rparr>"
  have prompt: "buildTranscriptionPromptWithVocabulary ?t1 = buildTranscriptionPromptWithVocabulary t"
    by (simp add: buildTranscriptionPromptWithVocabulary_def)
  have "retry_try remote j k ?t1 =
     (Inr (),
      ?t1\<lparr>st_db := (st_db ?t1)\<lparr>db_recordings := (db_recordings (st_db ?t1))(k \<mapsto>
           r\<lparr>rec_transcriptChunks := retried\<rparr>)\<rparr>,
        st_calls := calls1, st_transcriptChunks := retried\<rparr>)"
  proof (rule retry_try_succeeds)
    show "db_opened (st_db ?t1)" using assms(3) by simp
    show "db_recordings (st_db ?t1) k = Some r" using assms(4) by simp
    show "rec_id r = k" by (rule assms(5))
    show "MAX_CHUNK_SIZE_BYTES < blob_size (rec_blob r)" by (rule assms(6))
    show "st_transcriptChunks ?t1 = pieces" using assms(7) by simp
    show "\<forall>i<length pieces. tc_index (pieces ! i) = i" by (rule assms(8))
    show "j < length pieces" by (rule assms(9))
    show "transcribeAudio remote (piece_blob (rec_blob r) j)
           (before_semicolon (blob_type (rec_blob r)))
           (buildTranscriptionPromptWithVocabulary ?t1) (st_calls ?t1) = (Inr transcript, calls1)"
      using assms(10) by (simp add: prompt)
    show "retried = pieces[j := \<lparr>tc_index = j, tc_content = trim transcript,
           tc_status = ChunkCompleted\<rparr>]" by (rule assms(11))
  qed
  then show ?thesis
    using assms(1,2,3)
    by (simp add: handleRetryChunkTranscription_def Let_def loadRecordings_def;
        intro App.equality; simp)
qed

text \<open>
  C2. A run over a payload above the maximal piece size, on a store that accepts every
  write: every piece of the plan is attempted in order, whatever became of the pieces
  before it. A piece whose transcription failed is failed with the message of the error
  and a piece whose transcription succeeded is completed with the trimmed transcript;
  the pieces shown and the pieces stored are these. The recording is stored as completed
  when every piece succeeded and as failed otherwise, with progress 100, and the run
  itself ends normally. A later retry of one piece whose transcription then succeeds
  completes that piece and leaves every other piece as it was, in the state and in the
  store.
\<close>

theorem C2_partial_failure_containment:
  assumes "db_opened (st_db s)" and "db_recordings (st_db s) k = Some recording"
    and "rec_id recording = k"
    and "rec_status recording \<noteq> Completed \<or> rec_transcriptChunks recording = []"
    and "MAX_CHUNK_SIZE_BYTES < blob_size (rec_blob recording)"
    and "blob = rec_blob recording"
    and "n = totalChunks (blob_size blob)"
    and "prompt = buildTranscriptionPromptWithVocabulary s"
    and "outcomes = fst (piece_outcomes remote blob prompt [0..<n] (st_calls s))"
    and "pieces = map2 piece_result [0..<n] outcomes"
    and "after_run = snd (processRecording remote k s)"
  shows "fst (processRecording remote k s) = Inr ()
     \<and> length outcomes = n
     \<and> length pieces = n
     \<and> st_transcriptChunks after_run = pieces
     \<and> st_calls after_run = snd (piece_outcomes remote blob prompt [0..<n] (st_calls s))
     \<and> db_recordings (st_db after_run) k =
         Some (recording\<lparr>rec_status := (if list_all succeeded outcomes then Completed else Failed),
                 rec_progress := 100, rec_transcriptChunks := pieces\<rparr>)
     \<and> (\<forall>j transcript calls1.
           j < n \<and> k \<noteq> 0
           \<and> transcribeAudio remote (piece_blob blob j) (before_semicolon (blob_type blob)) prompt
               (st_calls after_run) = (Inr transcript, calls1) \<longrightarrow>
           fst (handleRetryChunkTranscription remote j after_run) = Inr ()
           \<and> st_transcriptChunks (snd (handleRetryChunkTranscription remote j after_run)) =
               pieces[j := \<lparr>tc_index = j, tc_content = trim transcript, tc_status = ChunkCompleted\<rparr>]
           \<and> db_recordings (st_db (snd (handleRetryChunkTranscription remote j after_run))) k =
               Some (recording\<lparr>rec_status := (if list_all succeeded outcomes then Completed else Failed),
                 rec_progress := 100,
                 rec_transcriptChunks :=
                   pieces[j := \<lparr>tc_index = j, tc_content = trim transcript,
                     tc_status = ChunkCompleted\<rparr>]\<rparr>))"
proof -
  let ?status = "if list_all succeeded outcomes then Completed else Failed"
  let ?r = "recording\<lparr>rec_status := ?status, rec_progress := 100, rec_transcriptChunks := pieces\<rparr>"
  have run: "processRecording remote k s =
     (Inr (),
      s\<lparr>st_db := (st_db s)\<lparr>db_recordings := (db_recordings (st_db s))(k \<mapsto> ?r)\<rparr>,
        st_calls := snd (piece_outcomes remote blob prompt [0..<n] (st_calls s)),
        st_isTranscribing := False,
        st_transcriptChunks := pieces,
        st_generatedNotes := (case rec_formattedNotes recording of None \<Rightarrow> [] | Some n \<Rightarrow> n),
        st_error := None, st_recordedAudioBlob := Some blob,
        st_activeRecordingId := Some k\<rparr>)"
    using assms(1-10) by (rule processRecording_multi)
  have len_out: "length outcomes = n"
    by (simp add: assms(9) piece_outcomes_length)
  then have len: "length pieces = n"
    by (simp add: assms(10))
  have indexed: "\<forall>i<length pieces. tc_index (pieces ! i) = i"
    using len_out by (simp add: assms(10) piece_result_index)
  have after: "st_transcriptChunks after_run = pieces"
    "st_calls after_run = snd (piece_outcomes remote blob prompt [0..<n] (st_calls s))"
    "db_recordings (st_db after_run) k = Some ?r"
    "db_opened (st_db after_run)" "st_activeRecordingId after_run = Some k"
    "buildTranscriptionPromptWithVocabulary after_run = prompt"
    using assms(1)
    by (simp_all add: assms(11) run assms(8) buildTranscriptionPromptWithVocabulary_def)
  have retry: "fst (handleRetryChunkTranscription remote j after_run) = Inr ()
           \<and> st_transcriptChunks (snd (handleRetryChunkTranscription remote j after_run)) =
               pieces[j := \<lparr>tc_index = j, tc_content = trim transcript, tc_status = ChunkCompleted\<rparr>]
           \<and> db_recordings (st_db (snd (handleRetryChunkTranscription remote j after_run))) k =
               Some (recording\<lparr>rec_status := ?status, rec_progress := 100,
                 rec_transcriptChunks :=
                   pieces[j := \<lparr>tc_index = j, tc_content = trim transcript,
                     tc_status = ChunkCompleted\<rparr>]\<rparr>)"
    if "j < n" and "k \<noteq> 0"
      and "transcribeAudio remote (piece_blob blob j) (before_semicolon (blob_type blob)) prompt
               (st_calls after_run) = (Inr transcript, calls1)"
    for j transcript calls1
  proof -
    let ?retried = "pieces[j := \<lparr>tc_index = j, tc_content = trim transcript,
        tc_status = ChunkCompleted\<rparr>]"
    have "handleRetryChunkTranscription remote j after_run =
     (Inr (),
      after_run\<lparr>st_db := (st_db after_run)\<lparr>db_recordings := (db_recordings (st_db after_run))(k \<mapsto>
           ?r\<lparr>rec_transcriptChunks := ?retried\<rparr>)\<rparr>,
        st_calls := calls1, st_isTranscribing := False, st_transcriptChunks := ?retried,
        st_error := None\<rparr>)"
    proof (rule handleRetryChunkTranscription_succeeds)
      show "st_activeRecordingId after_run = Some k" by (rule after)
      show "k \<noteq> 0" by (rule that)
      show "db_opened (st_db after_run)" by (rule after)
      show "db_recordings (st_db after_run) k = Some ?r" by (rule after)
      show "rec_id ?r = k" using assms(3) by simp
      show "MAX_CHUNK_SIZE_BYTES < blob_size (rec_blob ?r)" using assms(5) by simp
      show "st_transcriptChunks after_run = pieces" by (rule after)
      show "\<forall>i<length pieces. tc_index (pieces ! i) = i" by (rule indexed)
      show "j < length pieces" using that(1) len by simp
      show "transcribeAudio remote (piece_blob (rec_blob ?r) j)
           (before_semicolon (blob_type (rec_blob ?r)))
           (buildTranscriptionPromptWithVocabulary after_run) (st_calls after_run) =
           (Inr transcript, calls1)"
        using that(3) by (simp add: after(6) assms(6))
      show "?retried = pieces[j := \<lparr>tc_index = j, tc_content = trim transcript,
           tc_status = ChunkCompleted\<rparr>]" by simp
    qed
    then show ?thesis by simp
  qed
  from run len_out len after(1-3) retry show ?thesis
    by (simp add: assms(11))
qed

theorem C2_witness:
  "st_transcriptChunks (snd (processRecording example_remote 8 (example_state example_long_db))) =
     [\<lparr>tc_index = 0, tc_content = ''hello'', tc_status = ChunkCompleted\<rparr>,
      \<lparr>tc_index = 1, tc_content = ''hello'', tc_status = ChunkCompleted\<rparr>,
      \<lparr>tc_index = 2, tc_content = ''Error transcribing audio: quota exceeded'',
        tc_status = ChunkFailed\<rparr>,
      \<lparr>tc_index = 3, tc_content = ''hello'', tc_status = ChunkCompleted\<rparr>,
      \<lparr>tc_index = 4, tc_content = ''hello'', tc_status = ChunkCompleted\<rparr>]
   \<and> map_option rec_status
       (db_recordings (st_db (snd (processRecording example_remote 8
          (example_state example_long_db)))) 8) = Some Failed
   \<and> st_transcriptChunks (snd (handleRetryChunkTranscription example_remote 2
       (snd (processRecording example_remote 8 (example_state example_long_db))))) =
     [\<lparr>tc_index = 0, tc_content = ''hello'', tc_status = ChunkCompleted\<rparr>,
      \<lparr>tc_index = 1, tc_content = ''hello'', tc_status = ChunkCompleted\<rparr>,
      \<lparr>tc_index = 2, tc_content = ''hello'', tc_status = ChunkCompleted\<rparr>,
      \<lparr>tc_index = 3, tc_content = ''hello'', tc_status = ChunkCompleted\<rparr>,
      \<lparr>tc_index = 4, tc_content = ''hello'', tc_status = ChunkCompleted\<rparr>]"
proof -
  let ?s = "example_state example_long_db"
  let ?prompt = "''Transcribe the audio.''"
  let ?req = "\<lambda>i. transcription_request ''gemini-flash-lite-latest''
      (piece_blob example_long_blob i) ''audio/webm'' ?prompt"
  let ?after = "snd (processRecording example_remote 8 ?s)"
  have size: "blob_size example_long_blob = 50000000"
    by (simp add: blob_size_def example_long_blob_def)
  have n: "totalChunks (blob_size example_long_blob) = 5"
    by (simp add: size totalChunks_def ceil_div_def MAX_CHUNK_SIZE_BYTES_def HEADER_SIZE_BYTES_def)
  have ty: "before_semicolon (blob_type example_long_blob) = ''audio/webm''"
    by (simp add: example_long_blob_def before_semicolon_def)
  have prompt: "buildTranscriptionPromptWithVocabulary ?s = ?prompt"
    by (simp add: buildTranscriptionPromptWithVocabulary_def example_state_def)
  have trimmed: "trim '' hello '' = ''hello''"
    by (simp add: trim_def is_ws_def)
  have five: "[0..<5] = [0, 1, 2, 3, 4]"
    by (simp add: upt_rec)
  have outs: "piece_outcomes example_remote example_long_blob ?prompt [0..<5] [] =
      ([Inr '' hello '', Inr '' hello '', Inl (Error ''Error transcribing audio: quota exceeded''),
        Inr '' hello '', Inr '' hello ''],
       [?req 0, ?req 1, ?req 2, ?req 3, ?req 4])"
    by (simp add: five ty transcribeAudio_def withTimeout_def example_remote_def
        text_or_empty_def Let_def)
  have again: "transcribeAudio example_remote (piece_blob example_long_blob 2) ''audio/webm'' ?prompt
      [?req 0, ?req 1, ?req 2, ?req 3, ?req 4] =
      (Inr '' hello '', [?req 0, ?req 1, ?req 2, ?req 3, ?req 4, ?req 2])"
    by (simp add: transcribeAudio_def withTimeout_def example_remote_def text_or_empty_def Let_def)
  have stored: "db_opened (st_db ?s)" "db_recordings (st_db ?s) 8 = Some example_long_recording"
    "rec_id example_long_recording = 8"
    "rec_status example_long_recording \<noteq> Completed \<or> rec_transcriptChunks example_long_recording = []"
    "example_long_blob = rec_blob example_long_recording"
    by (simp_all add: example_state_def example_long_db_def example_long_recording_def)
  have large: "MAX_CHUNK_SIZE_BYTES < blob_size (rec_blob example_long_recording)"
    by (simp add: stored(5) [symmetric] size MAX_CHUNK_SIZE_BYTES_def)
  have calls: "st_calls ?s = []"
    by (simp add: example_state_def)
  note run = C2_partial_failure_containment [OF stored(1-4) large stored(5) refl refl refl refl refl,
      of example_remote, unfolded n prompt calls outs fst_conv snd_conv ty]
  note shown = run [THEN conjunct2, THEN conjunct2, THEN conjunct2, THEN conjunct1]
  note logged = run [THEN conjunct2, THEN conjunct2, THEN conjunct2, THEN conjunct2, THEN conjunct1]
  note kept = run [THEN conjunct2, THEN conjunct2, THEN conjunct2, THEN conjunct2, THEN conjunct2,
      THEN conjunct1]
  note retry = run [THEN conjunct2, THEN conjunct2, THEN conjunct2, THEN conjunct2, THEN conjunct2,
      THEN conjunct2, rule_format, of 2 "'' hello ''" "[?req 0, ?req 1, ?req 2, ?req 3, ?req 4, ?req 2]",
      THEN conjunct2, THEN conjunct1]
  from shown have pieces: "st_transcriptChunks ?after =
     [\<lparr>tc_index = 0, tc_content = ''hello'', tc_status = ChunkCompleted\<rparr>,
      \<lparr>tc_index = 1, tc_content = ''hello'', tc_status = ChunkCompleted\<rparr>,
      \<lparr>tc_index = 2, tc_content = ''Error transcribing audio: quota exceeded'',
        tc_status = ChunkFailed\<rparr>,
      \<lparr>tc_index = 3, tc_content = ''hello'', tc_status = ChunkCompleted\<rparr>,
      \<lparr>tc_index = 4, tc_content = ''hello'', tc_status = ChunkCompleted\<rparr>]"
    by (simp add: piece_result_def trimmed five)
  from kept have status: "map_option rec_status (db_recordings (st_db ?after) 8) = Some Failed"
    by (simp add: succeeded_def)
  have "st_transcriptChunks (snd (handleRetryChunkTranscription example_remote 2 ?after)) =
      (map2 piece_result [0..<5]
         [Inr '' hello '', Inr '' hello '', Inl (Error ''Error transcribing audio: quota exceeded''),
          Inr '' hello '', Inr '' hello ''])
        [2 := \<lparr>tc_index = 2, tc_content = trim '' hello '', tc_status = ChunkCompleted\<rparr>]"
    using again by (intro retry) (simp add: logged)
  then have retried: "st_transcriptChunks (snd (handleRetryChunkTranscription example_remote 2 ?after)) =
     [\<lparr>tc_index = 0, tc_content = ''hello'', tc_status = ChunkCompleted\<rparr>,
      \<lparr>tc_index = 1, tc_content = ''hello'', tc_status = ChunkCompleted\<rparr>,
      \<lparr>tc_index = 2, tc_content = ''hello'', tc_status = ChunkCompleted\<rparr>,
      \<lparr>tc_index = 3, tc_content = ''hello'', tc_status = ChunkCompleted\<rparr>,
      \<lparr>tc_index = 4, tc_content = ''hello'', tc_status = ChunkCompleted\<rparr>]"
    by (simp add: piece_result_def trimmed five)
  from pieces status retried show ?thesis by simp
qed

text \<open>
  C5, as amended. When the transcription of a payload that fits one request fails, the
  single-piece branch marks piece 0 failed with the message of the error, stores the
  recording with this piece, status failed and progress 100, and throws the error again.
  The error does not leave processRecording: its \<^verbatim>\<open>catch\<close> puts the message in the
  error state and stores status failed with progress 0, which is the final stored state,
  and processRecording ends normally.
\<close>

theorem C5_single_piece_failure:
  assumes "db_opened (st_db s)" and "db_recordings (st_db s) k = Some recording"
    and "rec_id recording = k"
    and "rec_status recording \<noteq> Completed \<or> rec_transcriptChunks recording = []"
    and "blob_size (rec_blob recording) \<le> MAX_CHUNK_SIZE_BYTES"
    and "blob = rec_blob recording"
    and "transcribeAudio remote blob (before_semicolon (blob_type blob))
           (buildTranscriptionPromptWithVocabulary s) (st_calls s) = (Inl e, calls1)"
    and "failedChunk = \<lparr>tc_index = 0, tc_content = message_or_string e, tc_status = ChunkFailed\<rparr>"
    and "after_run = snd (processRecording remote k s)"
  shows "(\<forall>t r p c.
            db_opened (st_db t) \<and> db_recordings (st_db t) k = Some r \<and> rec_id r = k
            \<and> transcribeAudio remote blob (before_semicolon (blob_type blob)) p (st_calls t)
                = (Inl e, c) \<longrightarrow>
            fst (process_single remote k blob p t) = Inl e
            \<and> db_recordings (st_db (snd (process_single remote k blob p t))) k =
                Some (r\<lparr>rec_status := Failed, rec_progress := 100,
                        rec_transcriptChunks := [failedChunk]\<rparr>))
     \<and> fst (processRecording remote k s) = Inr ()
     \<and> st_transcriptChunks after_run = [failedChunk]
     \<and> st_error after_run =
         Some (''Processing failed: '' @ message_in_template e
                 @ ''. The file might be too large or in an unsupported format.'')
     \<and> db_recordings (st_db after_run) k =
         Some (recording\<lparr>rec_status := Failed, rec_progress := 0,
                 rec_transcriptChunks := [failedChunk]\<rparr>)"
proof -
  have branch: "fst (process_single remote k blob p t) = Inl e
            \<and> db_recordings (st_db (snd (process_single remote k blob p t))) k =
                Some (r\<lparr>rec_status := Failed, rec_progress := 100,
                        rec_transcriptChunks := [failedChunk]\<rparr>)"
    if "db_opened (st_db t) \<and> db_recordings (st_db t) k = Some r \<and> rec_id r = k
            \<and> transcribeAudio remote blob (before_semicolon (blob_type blob)) p (st_calls t)
                = (Inl e, c)"
    for t r p c
  proof -
    from that have "process_single remote k blob p t =
     (Inl e, t\<lparr>st_calls := c, st_transcriptChunks := [failedChunk],
               st_db := (st_db t)\<lparr>db_recordings := (db_recordings (st_db t))(k \<mapsto>
                 r\<lparr>rec_status := Failed, rec_progress := 100,
                    rec_transcriptChunks := [failedChunk]\<rparr>)\<rparr>\<rparr>)"
      by (intro process_single_fails assms(8)) simp_all
    then show ?thesis by simp
  qed
  have "processRecording remote k s =
     (Inr (),
      s\<lparr>st_db := (st_db s)\<lparr>db_recordings := (db_recordings (st_db s))(k \<mapsto>
           recording\<lparr>rec_status := Failed, rec_progress := 0,
              rec_transcriptChunks := [failedChunk]\<rparr>)\<rparr>,
        st_calls := calls1,
        st_isTranscribing := False,
        st_transcriptChunks := [failedChunk],
        st_generatedNotes := (case rec_formattedNotes recording of None \<Rightarrow> [] | Some n \<Rightarrow> n),
        st_error := Some (''Processing failed: '' @ message_in_template e
                  @ ''. The file might be too large or in an unsupported format.''),
        st_recordedAudioBlob := Some (rec_blob recording),
        st_activeRecordingId := Some k\<rparr>)"
    using assms(1-5) assms(7) [unfolded assms(6)] assms(8)
    by (rule processRecording_single_fails)
  then have final: "fst (processRecording remote k s) = Inr ()
     \<and> st_transcriptChunks after_run = [failedChunk]
     \<and> st_error after_run =
         Some (''Processing failed: '' @ message_in_template e
                 @ ''. The file might be too large or in an unsupported format.'')
     \<and> db_recordings (st_db after_run) k =
         Some (recording\<lparr>rec_status := Failed, rec_progress := 0,
                 rec_transcriptChunks := [failedChunk]\<rparr>)"
    by (simp add: assms(9))
  from branch final show ?thesis
    by blast
qed

theorem C5_witness:
  "fst (processRecording (\<lambda>calls req. Rejected 250 (Error ''quota exceeded'')) 7
      (example_state example_db)) = Inr ()
   \<and> st_transcriptChunks (snd (processRecording (\<lambda>calls req. Rejected 250 (Error ''quota exceeded'')) 7
      (example_state example_db))) =
     [\<lparr>tc_index = 0, tc_content = ''Error transcribing audio: quota exceeded'',
        tc_status = ChunkFailed\<rparr>]
   \<and> st_error (snd (processRecording (\<lambda>calls req. Rejected 250 (Error ''quota exceeded'')) 7
      (example_state example_db))) =
     Some ''Processing failed: Error transcribing audio: quota exceeded. The file might be too large or in an unsupported format.''
   \<and> db_recordings (st_db (snd (processRecording (\<lambda>calls req. Rejected 250 (Error ''quota exceeded'')) 7
      (example_state example_db)))) 7 =
     Some (example_recording\<lparr>rec_status := Failed, rec_progress := 0,
        rec_transcriptChunks :=
          [\<lparr>tc_index = 0, tc_content = ''Error transcribing audio: quota exceeded'',
             tc_status = ChunkFailed\<rparr>]\<rparr>)"
proof -
  let ?remote = "\<lambda>calls req. Rejected 250 (Error ''quota exceeded'')"
  let ?s = "example_state example_db"
  have stored: "db_opened (st_db ?s)" "db_recordings (st_db ?s) 7 = Some example_recording"
    "rec_id example_recording = 7"
    "rec_status example_recording \<noteq> Completed \<or> rec_transcriptChunks example_recording = []"
    "example_blob = rec_blob example_recording"
    by (simp_all add: example_state_def example_db_def example_recording_def)
  have small: "blob_size (rec_blob example_recording) \<le> MAX_CHUNK_SIZE_BYTES"
    by (simp add: example_recording_def example_blob_def blob_size_def MAX_CHUNK_SIZE_BYTES_def)
  have fails: "transcribeAudio ?remote example_blob (before_semicolon (blob_type example_blob))
      (buildTranscriptionPromptWithVocabulary ?s) (st_calls ?s) =
      (Inl (Error ''Error transcribing audio: quota exceeded''),
       [transcription_request ''gemini-flash-lite-latest'' example_blob
          (before_semicolon (blob_type example_blob)) (buildTranscriptionPromptWithVocabulary ?s)])"
    by (simp add: transcribeAudio_def withTimeout_def example_state_def)
  note run = C5_single_piece_failure [OF stored(1-4) small stored(5) fails refl refl,
      THEN conjunct2]
  from run show ?thesis
    by simp
qed

text \<open>
  The claim as it stands fails: after a failed single-piece run the stored progress is 0,
  not 100, and processRecording ends normally instead of passing the error on.
\<close>

theorem C5_counterexample:
  "fst (processRecording (\<lambda>calls req. Rejected 250 (Error ''quota exceeded'')) 7
      (example_state example_db)) = Inr ()
   \<and> map_option rec_progress
       (db_recordings (st_db (snd (processRecording
          (\<lambda>calls req. Rejected 250 (Error ''quota exceeded'')) 7 (example_state example_db)))) 7) =
     Some 0"
proof -
  let ?remote = "\<lambda>calls req. Rejected 250 (Error ''quota exceeded'')"
  let ?s = "example_state example_db"
  have stored: "db_opened (st_db ?s)" "db_recordings (st_db ?s) 7 = Some example_recording"
    "rec_id example_recording = 7"
    "rec_status example_recording \<noteq> Completed \<or> rec_transcriptChunks example_recording = []"
    by (simp_all add: example_state_def example_db_def example_recording_def)
  have small: "blob_size (rec_blob example_recording) \<le> MAX_CHUNK_SIZE_BYTES"
    by (simp add: example_recording_def example_blob_def blob_size_def MAX_CHUNK_SIZE_BYTES_def)
  have fails: "transcribeAudio ?remote (rec_blob example_recording)
      (before_semicolon (blob_type (rec_blob example_recording)))
      (buildTranscriptionPromptWithVocabulary ?s) (st_calls ?s) =
      (Inl (Error ''Error transcribing audio: quota exceeded''),
       [transcription_request ''gemini-flash-lite-latest'' (rec_blob example_recording)
          (before_semicolon (blob_type (rec_blob example_recording)))
          (buildTranscriptionPromptWithVocabulary ?s)])"
    by (simp add: transcribeAudio_def withTimeout_def example_state_def)
  from processRecording_single_fails [OF stored small fails refl]
  show ?thesis by simp
qed

end
